theory Spec2Isabelle
  imports Main "HOL-Library.Word" "HOL-Library.Sublist"
begin

section \<open>Values, errors and the object store\<close>

text \<open>
  JavaScript strings are sequences of UTF-16 code units: \<open>length\<close> and
  \<open>substring\<close> count code units. Message content (body text, response text) is
  modelled so. Tokens that the code only compares with literals (method names, header
  names, MIME types, member names) are plain strings.
\<close>

type_synonym byte = "8 word"
type_synonym jsstring = "16 word list"
type_synonym ref = nat

definition js :: "string \<Rightarrow> jsstring" where
  "js s = map (\<lambda>c. of_nat (of_char c)) s"

text \<open>
  Every \<open>throw\<close> and every rejected promise of the source is a value of this type.
  \<open>AlreadyRead\<close> is \<open>Error("Already read")\<close> of \<open>Body.__consumed\<close> and
  \<open>TypeError("Already read")\<close> of the \<open>Request\<close> constructor.
  \<open>NotAFunction m\<close> is the \<open>TypeError\<close> of calling a member \<open>m\<close> that the
  receiver does not have, \<open>UndefinedMember m\<close> the \<open>TypeError\<close> of reading member
  \<open>m\<close> of \<open>undefined\<close>.
\<close>

datatype error =
    AlreadyRead
  | BodyNotAllowed
  | StreamingBodyUnsupported
  | CouldNotRead string
  | NotAFunction string
  | UndefinedMember string
  | InvalidHeaderName string
  | SyntaxError
  | PlatformError string
  | StreamStateError
  | AbortError
  | NetworkTimedOut
  | NetworkFailed jsstring

text \<open>The result of awaiting an asynchronous call at a given moment.\<close>

datatype 'a promise = Fulfilled 'a | Rejected error | Pending

datatype blobpart = TextPart jsstring | BytesPart "byte list"

datatype blob = Blob (blobParts: "blobpart list") (blobType: string)

text \<open>
  The values a caller can pass as a body. Buffers and streams are objects of the store,
  passed by reference. A typed array and a \<open>DataView\<close> are views
  (buffer, byteOffset, byteLength); both satisfy \<open>ArrayBuffer.isView\<close>, only the
  typed array has a \<open>slice\<close> method. \<open>OtherObject s\<close> is any other object, \<open>s\<close>
  being what its \<open>toString()\<close> returns. The falsy values are \<open>undefined\<close>,
  \<open>null\<close> and the empty string.
\<close>

datatype jsvalue =
    Undefined
  | Null
  | Str jsstring
  | BlobV blob
  | FormDataV "(jsstring \<times> jsstring) list"
  | URLSearchParamsV jsstring
  | ArrayBufferV ref
  | TypedArrayV ref nat nat
  | DataViewV ref nat nat
  | ReadableStreamV ref
  | OtherObject jsstring

fun truthy :: "jsvalue \<Rightarrow> bool" where
  "truthy Undefined = False"
| "truthy Null = False"
| "truthy (Str s) = (s \<noteq> [])"
| "truthy _ = True"

fun toString :: "jsvalue \<Rightarrow> jsstring" where
  "toString (Str s) = s"
| "toString (URLSearchParamsV s) = s"
| "toString (OtherObject s) = s"
| "toString _ = js ''[object Object]''"

datatype sstatus = Readable | Closed | Errored error

record rstream =
  chunks :: "byte list list"
  state :: sstatus
  locked :: bool

text \<open>The fields of a \<open>Body\<close> object, \<open>None\<close> for a field never assigned.\<close>

record body =
  bodyUsed :: bool
  bodyInit :: jsvalue
  bodyText :: "jsstring option"
  bodyBlob :: "blob option"
  bodyFormData :: "(jsstring \<times> jsstring) list option"
  bodyArrayBuffer :: "jsvalue option"
  bodyReadableStream :: "ref option"
  mimeType :: "string option"

text \<open>
  The store: array buffers, bodies, header tables, streams and abort signals by
  reference, and the next unused reference.
\<close>

record heap =
  nextRef :: ref
  buffers :: "ref \<Rightarrow> byte list"
  bodies :: "ref \<Rightarrow> body"
  headerTabs :: "ref \<Rightarrow> (string \<times> string) list"
  streams :: "ref \<Rightarrow> rstream"
  aborted :: "ref \<Rightarrow> bool"

definition emptyBody :: "jsvalue \<Rightarrow> body" where
  "emptyBody v = \<lparr> bodyUsed = False, bodyInit = v, bodyText = None, bodyBlob = None,
     bodyFormData = None, bodyArrayBuffer = None, bodyReadableStream = None,
     mimeType = None \<rparr>"

definition emptyHeap :: heap where
  "emptyHeap = \<lparr> nextRef = 0, buffers = (\<lambda>_. []), bodies = (\<lambda>_. emptyBody Undefined),
     headerTabs = (\<lambda>_. []), streams = (\<lambda>_. \<lparr> chunks = [], state = Closed, locked = False \<rparr>),
     aborted = (\<lambda>_. False) \<rparr>"

definition newBuffer :: "heap \<Rightarrow> byte list \<Rightarrow> heap \<times> ref" where
  "newBuffer h bs =
     (h\<lparr> nextRef := Suc (nextRef h), buffers := (buffers h)(nextRef h := bs) \<rparr>, nextRef h)"

definition newBodyObject :: "heap \<Rightarrow> body \<Rightarrow> heap \<times> ref" where
  "newBodyObject h b =
     (h\<lparr> nextRef := Suc (nextRef h), bodies := (bodies h)(nextRef h := b) \<rparr>, nextRef h)"

text \<open>What the platform provides and the repository only calls.\<close>

record platform =
  utf8Decode :: "byte list \<Rightarrow> jsstring"
  readAsText :: "blob \<Rightarrow> error + jsstring"
  readAsArrayBuffer :: "blob \<Rightarrow> error + byte list"
  jsonValid :: "jsstring \<Rightarrow> bool"
  decodeURIComponent :: "jsstring \<Rightarrow> error + jsstring"
  toByteArray :: "jsstring \<Rightarrow> byte list"

section \<open>Body\<close>

text \<open>The bytes a buffer or a view denotes in the store.\<close>

fun bytesOf :: "heap \<Rightarrow> jsvalue \<Rightarrow> byte list" where
  "bytesOf h (ArrayBufferV r) = buffers h r"
| "bytesOf h (TypedArrayV r off len) = take len (drop off (buffers h r))"
| "bytesOf h (DataViewV r off len) = take len (drop off (buffers h r))"
| "bytesOf h _ = []"

text \<open>
  \<open>body.slice(0)\<close> on an \<open>ArrayBuffer\<close> or a view: a new buffer holding a copy of
  the bytes, for a typed array a new typed array over it. A \<open>DataView\<close> has no
  \<open>slice\<close>.
\<close>

fun slice0 :: "heap \<Rightarrow> jsvalue \<Rightarrow> error + (heap \<times> jsvalue)" where
  "slice0 h (ArrayBufferV r) =
     (case newBuffer h (buffers h r) of (h', r') \<Rightarrow> Inr (h', ArrayBufferV r'))"
| "slice0 h (TypedArrayV r off len) =
     (let bs = take len (drop off (buffers h r)) in
      case newBuffer h bs of (h', r') \<Rightarrow> Inr (h', TypedArrayV r' 0 (length bs)))"
| "slice0 h _ = Inl (NotAFunction ''slice'')"

text \<open>The constructor of \<open>Body\<close>, in the source's order of tests.\<close>

fun Body_fields :: "heap \<Rightarrow> jsvalue \<Rightarrow> error + (heap \<times> body)" where
  "Body_fields h (BlobV b) =
     Inr (h, (emptyBody (BlobV b))\<lparr> bodyBlob := Some b, mimeType := Some (blobType b) \<rparr>)"
| "Body_fields h (FormDataV fd) =
     Inr (h, (emptyBody (FormDataV fd))\<lparr> bodyFormData := Some fd,
        mimeType := Some ''multipart/form-data'' \<rparr>)"
| "Body_fields h (URLSearchParamsV s) =
     Inr (h, (emptyBody (URLSearchParamsV s))\<lparr> bodyText := Some s,
        mimeType := Some ''application/x-www-form-urlencoded;charset=UTF-8'' \<rparr>)"
| "Body_fields h (ArrayBufferV r) =
     (case slice0 h (ArrayBufferV r) of
        Inl e \<Rightarrow> Inl e
      | Inr (h', c) \<Rightarrow>
          Inr (h', (emptyBody (ArrayBufferV r))\<lparr> bodyArrayBuffer := Some c,
             mimeType := Some ''application/octet-stream'' \<rparr>))"
| "Body_fields h (TypedArrayV r off len) =
     (case slice0 h (TypedArrayV r off len) of
        Inl e \<Rightarrow> Inl e
      | Inr (h', c) \<Rightarrow>
          Inr (h', (emptyBody (TypedArrayV r off len))\<lparr> bodyArrayBuffer := Some c,
             mimeType := Some ''application/octet-stream'' \<rparr>))"
| "Body_fields h (DataViewV r off len) =
     (case slice0 h (DataViewV r off len) of
        Inl e \<Rightarrow> Inl e
      | Inr (h', c) \<Rightarrow>
          Inr (h', (emptyBody (DataViewV r off len))\<lparr> bodyArrayBuffer := Some c,
             mimeType := Some ''application/octet-stream'' \<rparr>))"
| "Body_fields h (ReadableStreamV s) =
     Inr (h, (emptyBody (ReadableStreamV s))\<lparr> bodyReadableStream := Some s,
        mimeType := Some ''application/octet-stream'' \<rparr>)"
| "Body_fields h v =
     (if \<not> truthy v then Inr (h, (emptyBody v)\<lparr> bodyText := Some [] \<rparr>)
      else Inr (h, (emptyBody v)\<lparr> bodyText := Some (toString v),
        mimeType := Some ''text/plain;charset=UTF-8'' \<rparr>))"

definition Body_new :: "heap \<Rightarrow> jsvalue \<Rightarrow> error + (heap \<times> ref)" where
  "Body_new h v =
     (case Body_fields h v of
        Inl e \<Rightarrow> Inl e
      | Inr (h', b) \<Rightarrow> Inr (newBodyObject h' b))"

text \<open>
  \<open>__consumed\<close>: on a used body the rejected promise (here \<open>True\<close>), otherwise the
  flag is set and nothing is returned.
\<close>

definition consumed :: "heap \<Rightarrow> ref \<Rightarrow> heap \<times> bool" where
  "consumed h b =
     (if bodyUsed (bodies h b) then (h, True)
      else (h\<lparr> bodies := (bodies h)(b := (bodies h b)\<lparr> bodyUsed := True \<rparr>) \<rparr>, False))"

text \<open>
  \<open>drainStream\<close>: takes the reader (a locked stream has none to give), then reads
  until the stream is done. On a stream still open the read is pending.
\<close>

definition drainStream :: "heap \<Rightarrow> ref \<Rightarrow> heap \<times> byte list promise" where
  "drainStream h s =
     (let st = streams h s in
      if locked st then (h, Rejected (PlatformError ''locked''))
      else
        (case state st of
           Readable \<Rightarrow> (h\<lparr> streams := (streams h)(s := st\<lparr> locked := True \<rparr>) \<rparr>, Pending)
         | Errored e \<Rightarrow>
             (h\<lparr> streams := (streams h)(s := st\<lparr> locked := True \<rparr>) \<rparr>, Rejected e)
         | Closed \<Rightarrow>
             (h\<lparr> streams := (streams h)(s := st\<lparr> locked := True, chunks := [] \<rparr>) \<rparr>,
              Fulfilled (concat (chunks st)))))"

datatype jsresult =
    RBlob blob
  | RArrayBuffer ref
  | RText jsstring
  | RJson jsstring
  | RFormData "(jsstring \<times> jsstring) list"
  | RUndefined

definition Body_blob :: "heap \<Rightarrow> ref \<Rightarrow> heap \<times> jsresult promise" where
  "Body_blob h b =
     (case consumed h b of
        (h1, True) \<Rightarrow> (h1, Rejected AlreadyRead)
      | (h1, False) \<Rightarrow>
          (let B = bodies h1 b in
           case bodyBlob B of
             Some bl \<Rightarrow> (h1, Fulfilled (RBlob bl))
           | None \<Rightarrow>
          (case bodyReadableStream B of
             Some s \<Rightarrow>
               (case drainStream h1 s of
                  (h2, Fulfilled bs) \<Rightarrow> (h2, Fulfilled (RBlob (Blob [BytesPart bs] [])))
                | (h2, Rejected e) \<Rightarrow> (h2, Rejected e)
                | (h2, Pending) \<Rightarrow> (h2, Pending))
           | None \<Rightarrow>
          (case bodyArrayBuffer B of
             Some ab \<Rightarrow> (h1, Fulfilled (RBlob (Blob [BytesPart (bytesOf h1 ab)] [])))
           | None \<Rightarrow>
          (case bodyFormData B of
             Some fd \<Rightarrow> (h1, Rejected (CouldNotRead ''FormData body as blob''))
           | None \<Rightarrow>
          (case bodyText B of
             Some t \<Rightarrow> (h1, Fulfilled (RBlob (Blob [TextPart t] [])))
           | None \<Rightarrow> (h1, Fulfilled (RBlob (Blob [TextPart (js ''undefined'')] [])))))))))"

definition Body_arrayBuffer :: "platform \<Rightarrow> heap \<Rightarrow> ref \<Rightarrow> heap \<times> jsresult promise" where
  "Body_arrayBuffer P h b =
     (case consumed h b of
        (h1, True) \<Rightarrow> (h1, Rejected AlreadyRead)
      | (h1, False) \<Rightarrow>
          (let B = bodies h1 b in
           case bodyReadableStream B of
             Some s \<Rightarrow>
               (case drainStream h1 s of
                  (h2, Fulfilled bs) \<Rightarrow>
                    (case newBuffer h2 bs of (h3, r) \<Rightarrow> (h3, Fulfilled (RArrayBuffer r)))
                | (h2, Rejected e) \<Rightarrow> (h2, Rejected e)
                | (h2, Pending) \<Rightarrow> (h2, Pending))
           | None \<Rightarrow>
          (case bodyArrayBuffer B of
             Some (ArrayBufferV r) \<Rightarrow> (h1, Fulfilled (RArrayBuffer r))
           | Some v \<Rightarrow>
               (case newBuffer h1 (bytesOf h1 v) of (h2, r) \<Rightarrow> (h2, Fulfilled (RArrayBuffer r)))
           | None \<Rightarrow>
          (case Body_blob h1 b of
             (h2, Fulfilled (RBlob bl)) \<Rightarrow>
               (case readAsArrayBuffer P bl of
                  Inl e \<Rightarrow> (h2, Rejected e)
                | Inr bs \<Rightarrow>
                    (case newBuffer h2 bs of (h3, r) \<Rightarrow> (h3, Fulfilled (RArrayBuffer r))))
           | (h2, Fulfilled _) \<Rightarrow> (h2, Rejected (PlatformError ''not a blob''))
           | (h2, Rejected e) \<Rightarrow> (h2, Rejected e)
           | (h2, Pending) \<Rightarrow> (h2, Pending)))))"

definition Body_text :: "platform \<Rightarrow> heap \<Rightarrow> ref \<Rightarrow> heap \<times> jsresult promise" where
  "Body_text P h b =
     (case consumed h b of
        (h1, True) \<Rightarrow> (h1, Rejected AlreadyRead)
      | (h1, False) \<Rightarrow>
          (let B = bodies h1 b in
           case bodyReadableStream B of
             Some s \<Rightarrow>
               (case drainStream h1 s of
                  (h2, Fulfilled bs) \<Rightarrow> (h2, Fulfilled (RText (utf8Decode P bs)))
                | (h2, Rejected e) \<Rightarrow> (h2, Rejected e)
                | (h2, Pending) \<Rightarrow> (h2, Pending))
           | None \<Rightarrow>
          (case bodyBlob B of
             Some bl \<Rightarrow>
               (case readAsText P bl of
                  Inl e \<Rightarrow> (h1, Rejected e)
                | Inr t \<Rightarrow> (h1, Fulfilled (RText t)))
           | None \<Rightarrow>
          (case bodyArrayBuffer B of
             Some ab \<Rightarrow> (h1, Fulfilled (RText (utf8Decode P (bytesOf h1 ab))))
           | None \<Rightarrow>
          (case bodyFormData B of
             Some fd \<Rightarrow> (h1, Rejected (CouldNotRead ''FormData body as text''))
           | None \<Rightarrow>
          (case bodyText B of
             Some t \<Rightarrow> (h1, Fulfilled (RText t))
           | None \<Rightarrow> (h1, Fulfilled RUndefined)))))))"


text \<open>\<open>json\<close>: \<open>text()\<close>, then \<open>JSON.parse\<close>; the parsed value is given by its text.\<close>

definition Body_json :: "platform \<Rightarrow> heap \<Rightarrow> ref \<Rightarrow> heap \<times> jsresult promise" where
  "Body_json P h b =
     (case Body_text P h b of
        (h1, Fulfilled (RText t)) \<Rightarrow>
          (if jsonValid P t then (h1, Fulfilled (RJson t)) else (h1, Rejected SyntaxError))
      | (h1, Fulfilled _) \<Rightarrow> (h1, Rejected SyntaxError)
      | (h1, Rejected e) \<Rightarrow> (h1, Rejected e)
      | (h1, Pending) \<Rightarrow> (h1, Pending))"

text \<open>The white space that \<open>String.prototype.trim\<close> removes.\<close>

definition isWhite :: "16 word \<Rightarrow> bool" where
  "isWhite c = (c \<in> set [0x9, 0xA, 0xB, 0xC, 0xD, 0x20, 0xA0, 0x1680, 0x2000, 0x2001,
     0x2002, 0x2003, 0x2004, 0x2005, 0x2006, 0x2007, 0x2008, 0x2009, 0x200A, 0x2028,
     0x2029, 0x202F, 0x205F, 0x3000, 0xFEFF])"

definition trim :: "jsstring \<Rightarrow> jsstring" where
  "trim s = rev (dropWhile isWhite (rev (dropWhile isWhite s)))"

text \<open>\<open>s.split(c)\<close> for a one-unit separator: the empty string gives one empty piece.\<close>

fun splitOn :: "'a \<Rightarrow> 'a list \<Rightarrow> 'a list list" where
  "splitOn c [] = [[]]"
| "splitOn c (x # xs) =
     (if x = c then [] # splitOn c xs
      else (case splitOn c xs of w # ws \<Rightarrow> (x # w) # ws | [] \<Rightarrow> [[x]]))"

text \<open>\<open>pieces.join(c)\<close>.\<close>

fun joinWith :: "'a \<Rightarrow> 'a list list \<Rightarrow> 'a list" where
  "joinWith c [] = []"
| "joinWith c [w] = w"
| "joinWith c (w # ws) = w @ c # joinWith c ws"

definition plusToSpace :: "jsstring \<Rightarrow> jsstring" where
  "plusToSpace s = map (\<lambda>c. if c = 0x2B then 0x20 else c) s"

text \<open>The loop of \<open>formData\<close> over the pieces between \<open>&\<close>; empty pieces are skipped.\<close>

fun appendPairs :: "platform \<Rightarrow> jsstring list \<Rightarrow> error + (jsstring \<times> jsstring) list" where
  "appendPairs P [] = Inr []"
| "appendPairs P (p # ps) =
     (if p = [] then appendPairs P ps
      else
        (case splitOn 0x3D p of
           [] \<Rightarrow> Inl (UndefinedMember ''replace'')
         | n # vs \<Rightarrow>
             (case decodeURIComponent P (plusToSpace n) of
                Inl e \<Rightarrow> Inl e
              | Inr name \<Rightarrow>
                  (case decodeURIComponent P (plusToSpace (joinWith 0x3D vs)) of
                     Inl e \<Rightarrow> Inl e
                   | Inr val \<Rightarrow>
                       (case appendPairs P ps of
                          Inl e \<Rightarrow> Inl e
                        | Inr rest \<Rightarrow> Inr ((name, val) # rest))))))"

definition Body_formData :: "platform \<Rightarrow> heap \<Rightarrow> ref \<Rightarrow> heap \<times> jsresult promise" where
  "Body_formData P h b =
     (case Body_text P h b of
        (h1, Fulfilled (RText t)) \<Rightarrow>
          (case appendPairs P (splitOn 0x26 (trim t)) of
             Inl e \<Rightarrow> (h1, Rejected e)
           | Inr fd \<Rightarrow> (h1, Fulfilled (RFormData fd)))
      | (h1, Fulfilled _) \<Rightarrow> (h1, Rejected (UndefinedMember ''trim''))
      | (h1, Rejected e) \<Rightarrow> (h1, Rejected e)
      | (h1, Pending) \<Rightarrow> (h1, Pending))"

text \<open>The five conversion methods, and a sequence of calls on one body.\<close>

datatype conversion = CText | CArrayBuffer | CBlob | CJson | CFormData

fun Body_call :: "platform \<Rightarrow> heap \<Rightarrow> ref \<Rightarrow> conversion \<Rightarrow> heap \<times> jsresult promise" where
  "Body_call P h b CText = Body_text P h b"
| "Body_call P h b CArrayBuffer = Body_arrayBuffer P h b"
| "Body_call P h b CBlob = Body_blob h b"
| "Body_call P h b CJson = Body_json P h b"
| "Body_call P h b CFormData = Body_formData P h b"


section \<open>Headers\<close>

text \<open>
  Modelled from the spec: the \<open>Headers\<close> class is not among the sources. The table is
  an ordered list of entries with lower-case names; \<open>append\<close> validates the name and
  joins a second value to the first with a comma and a space, \<open>set\<close> replaces the
  value in place or adds an entry at the end, and constructing from another table copies
  its entries into a new object.
\<close>

definition lowerChar :: "char \<Rightarrow> char" where
  "lowerChar c =
     (case map_of (zip ''ABCDEFGHIJKLMNOPQRSTUVWXYZ'' ''abcdefghijklmnopqrstuvwxyz'') c of
        Some d \<Rightarrow> d | None \<Rightarrow> c)"

definition validName :: "string \<Rightarrow> bool" where
  "validName n = (n \<noteq> [] \<and> (\<forall>c \<in> set n. 32 < (of_char c :: nat) \<and> (of_char c :: nat) < 127
      \<and> c \<notin> set '':[]''))"

definition Headers_has :: "(string \<times> string) list \<Rightarrow> string \<Rightarrow> bool" where
  "Headers_has t n = (map_of t (map lowerChar n) \<noteq> None)"

definition Headers_get :: "(string \<times> string) list \<Rightarrow> string \<Rightarrow> string option" where
  "Headers_get t n = map_of t (map lowerChar n)"

fun replaceValue :: "(string \<times> string) list \<Rightarrow> string \<Rightarrow> string \<Rightarrow> (string \<times> string) list" where
  "replaceValue [] n v = [(n, v)]"
| "replaceValue ((k, w) # t) n v = (if k = n then (k, v) # t else (k, w) # replaceValue t n v)"

definition Headers_set :: "(string \<times> string) list \<Rightarrow> string \<Rightarrow> string \<Rightarrow> error + (string \<times> string) list" where
  "Headers_set t n v =
     (if validName n then Inr (replaceValue t (map lowerChar n) v) else Inl (InvalidHeaderName n))"

definition Headers_append :: "(string \<times> string) list \<Rightarrow> string \<Rightarrow> string \<Rightarrow> error + (string \<times> string) list" where
  "Headers_append t n v =
     (if \<not> validName n then Inl (InvalidHeaderName n)
      else
        (case map_of t (map lowerChar n) of
           Some w \<Rightarrow> Inr (replaceValue t (map lowerChar n) (w @ '', '' @ v))
         | None \<Rightarrow> Inr (t @ [(map lowerChar n, v)])))"

fun appendAll :: "(string \<times> string) list \<Rightarrow> (string \<times> string) list \<Rightarrow> error + (string \<times> string) list" where
  "appendAll t [] = Inr t"
| "appendAll t ((n, v) # kvs) =
     (case Headers_append t n v of Inl e \<Rightarrow> Inl e | Inr t' \<Rightarrow> appendAll t' kvs)"

text \<open>
  A value in a \<open>headers\<close> position: a \<open>Headers\<close> object of the store, or a plain
  object of names and values, which has none of the methods of \<open>Headers\<close>.
\<close>

datatype hvalue = HeadersObj ref | PlainObject "(string \<times> string) list"

definition newHeadersObject :: "heap \<Rightarrow> (string \<times> string) list \<Rightarrow> heap \<times> ref" where
  "newHeadersObject h t =
     (h\<lparr> nextRef := Suc (nextRef h), headerTabs := (headerTabs h)(nextRef h := t) \<rparr>, nextRef h)"

definition Headers_new :: "heap \<Rightarrow> hvalue option \<Rightarrow> error + (heap \<times> ref)" where
  "Headers_new h init =
     (case init of
        None \<Rightarrow> Inr (newHeadersObject h [])
      | Some (HeadersObj a) \<Rightarrow> Inr (newHeadersObject h (headerTabs h a))
      | Some (PlainObject kvs) \<Rightarrow>
          (case appendAll [] kvs of
             Inl e \<Rightarrow> Inl e
           | Inr t \<Rightarrow> Inr (newHeadersObject h t)))"

section \<open>Request\<close>

record request =
  url :: string
  credentials :: string
  rmethod :: string
  signal :: "ref option"
  headers :: hvalue
  rbody :: ref

record options =
  o_body :: jsvalue
  o_method :: "string option"
  o_credentials :: "string option"
  o_headers :: "hvalue option"
  o_signal :: "ref option"

definition noOptions :: options where
  "noOptions = \<lparr> o_body = Undefined, o_method = None, o_credentials = None,
     o_headers = None, o_signal = None \<rparr>"

datatype input = UrlIn string | RequestIn request

text \<open>
  \<open>__handleRequestInput\<close>: the headers (the option's value as it is, or a copy of
  the source's), and the body taken over from the source request when the options give
  none and the source has one; the source's body is then marked used.
\<close>

definition handleRequestInput ::
  "heap \<Rightarrow> request \<Rightarrow> options \<Rightarrow> heap \<times> (error + (hvalue \<times> ref option))" where
  "handleRequestInput h r opts =
     (case (case o_headers opts of
              Some hv \<Rightarrow> Inr (h, hv)
            | None \<Rightarrow>
                (case Headers_new h (Some (headers r)) of
                   Inl e \<Rightarrow> Inl e
                 | Inr (h', a) \<Rightarrow> Inr (h', HeadersObj a))) of
        Inl e \<Rightarrow> (h, Inl e)
      | Inr (h1, hv) \<Rightarrow>
          (if \<not> truthy (o_body opts) \<and> truthy (bodyInit (bodies h1 (rbody r))) then
             (case Body_new h1 (bodyInit (bodies h1 (rbody r))) of
                Inl e \<Rightarrow> (h1, Inl e)
              | Inr (h2, b) \<Rightarrow>
                  (h2\<lparr> bodies := (bodies h2)(rbody r := (bodies h2 (rbody r))\<lparr> bodyUsed := True \<rparr>) \<rparr>,
                   Inr (hv, Some b)))
           else (h1, Inr (hv, None))))"

text \<open>
  The constructor after the input has been looked at: \<open>cred\<close>, \<open>meth\<close>, \<open>sig\<close>,
  \<open>hdrs\<close> and \<open>bdy\<close> are the fields \<open>__handleRequestInput\<close> has set, \<open>None\<close>
  where the input was not a \<open>Request\<close>.
\<close>

definition truthyMime :: "string option \<Rightarrow> bool" where
  "truthyMime m = (case m of Some t \<Rightarrow> t \<noteq> [] | None \<Rightarrow> False)"

definition Request_assemble ::
  "heap \<Rightarrow> string \<Rightarrow> string option \<Rightarrow> string option \<Rightarrow> ref option \<Rightarrow> hvalue option \<Rightarrow>
   ref option \<Rightarrow> options \<Rightarrow> heap \<times> (error + request)" where
  "Request_assemble h u cred meth sig hdrs bdy opts =
     (case (case bdy of Some b \<Rightarrow> Inr (h, b) | None \<Rightarrow> Body_new h (o_body opts)) of
        Inl e \<Rightarrow> (h, Inl e)
      | Inr (h1, b) \<Rightarrow>
          (let m = (case o_method opts of Some m \<Rightarrow> m
                    | None \<Rightarrow> (case meth of Some m \<Rightarrow> m | None \<Rightarrow> ''GET'')) in
           if truthy (bodyInit (bodies h1 b)) \<and> m \<in> set [''GET'', ''HEAD'']
           then (h1, Inl BodyNotAllowed)
           else if bodyReadableStream (bodies h1 b) \<noteq> None
           then (h1, Inl StreamingBodyUnsupported)
           else
             (let c = (case o_credentials opts of Some c \<Rightarrow> c
                       | None \<Rightarrow> (case cred of Some c \<Rightarrow> c | None \<Rightarrow> ''same-origin'')) in
              case (case hdrs of
                      Some hv \<Rightarrow> Inr (h1, hv)
                    | None \<Rightarrow>
                        (case Headers_new h1 (o_headers opts) of
                           Inl e \<Rightarrow> Inl e
                         | Inr (h', a) \<Rightarrow> Inr (h', HeadersObj a))) of
                Inl e \<Rightarrow> (h1, Inl e)
              | Inr (h2, hv) \<Rightarrow>
                  (let sg = (case o_signal opts of Some s \<Rightarrow> Some s | None \<Rightarrow> sig) in
                   case hv of
                     PlainObject kvs \<Rightarrow> (h2, Inl (NotAFunction ''has''))
                   | HeadersObj a \<Rightarrow>
                       (let h3 =
                          (if \<not> Headers_has (headerTabs h2 a) ''content-type''
                              \<and> truthyMime (mimeType (bodies h2 b))
                           then h2\<lparr> headerTabs := (headerTabs h2)
                                  (a := replaceValue (headerTabs h2 a) ''content-type''
                                          (case mimeType (bodies h2 b) of Some t \<Rightarrow> t | None \<Rightarrow> [])) \<rparr>
                           else h2) in
                        (h3, Inr \<lparr> url = u, credentials = c, rmethod = m, signal = sg,
                                  headers = HeadersObj a, rbody = b \<rparr>))))))"

definition Request_new :: "heap \<Rightarrow> input \<Rightarrow> options \<Rightarrow> heap \<times> (error + request)" where
  "Request_new h inp opts =
     (case inp of
        UrlIn u \<Rightarrow> Request_assemble h u None None None None None opts
      | RequestIn r \<Rightarrow>
          (if bodyUsed (bodies h (rbody r)) then (h, Inl AlreadyRead)
           else
             (case handleRequestInput h r opts of
                (h1, Inl e) \<Rightarrow> (h1, Inl e)
              | (h1, Inr (hv, ob)) \<Rightarrow>
                  Request_assemble h1 (url r) (Some (credentials r)) (Some (rmethod r))
                    (signal r) (Some hv) ob opts)))"

text \<open>\<open>clone\<close> and the conversion methods of \<open>Request\<close>.\<close>

definition Request_clone :: "heap \<Rightarrow> request \<Rightarrow> heap \<times> (error + request)" where
  "Request_clone h r =
     Request_new h (RequestIn r) (noOptions\<lparr> o_body := bodyInit (bodies h (rbody r)) \<rparr>)"

definition Request_bodyUsed :: "heap \<Rightarrow> request \<Rightarrow> bool" where
  "Request_bodyUsed h r = bodyUsed (bodies h (rbody r))"

definition Request_call :: "platform \<Rightarrow> heap \<Rightarrow> request \<Rightarrow> conversion \<Rightarrow> heap \<times> jsresult promise" where
  "Request_call P h r c = Body_call P h (rbody r) c"


definition upperChar :: "char \<Rightarrow> char" where
  "upperChar c =
     (case map_of (zip ''abcdefghijklmnopqrstuvwxyz'' ''ABCDEFGHIJKLMNOPQRSTUVWXYZ'') c of
        Some d \<Rightarrow> d | None \<Rightarrow> c)"

section \<open>Response\<close>

text \<open>
  Modelled from the spec: the \<open>Response\<close> class is not among the sources. A response
  has a status (200 when none is given), a status text (empty when none is given),
  \<open>ok\<close> for a status from 200 to 299, always a new \<open>Headers\<close> object, and a body
  constructed as for a request, without the restriction on \<open>GET\<close> and \<open>HEAD\<close>;
  the inferred MIME type becomes the \<open>content-type\<close> when the headers have none. Its
  conversion methods are those of its body.
\<close>

record response =
  status :: nat
  statusText :: string
  ok :: bool
  rtype :: string
  resHeaders :: ref
  resUrl :: string
  resBody :: ref

record responseInit =
  i_status :: "nat option"
  i_statusText :: "string option"
  i_headers :: "hvalue option"
  i_url :: "string option"

definition Response_new :: "heap \<Rightarrow> jsvalue \<Rightarrow> responseInit \<Rightarrow> error + (heap \<times> response)" where
  "Response_new h v init =
     (case Headers_new h (i_headers init) of
        Inl e \<Rightarrow> Inl e
      | Inr (h1, a) \<Rightarrow>
          (case Body_new h1 v of
             Inl e \<Rightarrow> Inl e
           | Inr (h2, b) \<Rightarrow>
               (let st = (case i_status init of Some n \<Rightarrow> n | None \<Rightarrow> 200);
                    h3 =
                      (if \<not> Headers_has (headerTabs h2 a) ''content-type''
                          \<and> truthyMime (mimeType (bodies h2 b))
                       then h2\<lparr> headerTabs := (headerTabs h2)
                              (a := replaceValue (headerTabs h2 a) ''content-type''
                                      (case mimeType (bodies h2 b) of Some t \<Rightarrow> t | None \<Rightarrow> [])) \<rparr>
                       else h2) in
                Inr (h3, \<lparr> status = st,
                          statusText = (case i_statusText init of Some t \<Rightarrow> t | None \<Rightarrow> []),
                          ok = (200 \<le> st \<and> st < 300), rtype = ''default'', resHeaders = a,
                          resUrl = (case i_url init of Some u \<Rightarrow> u | None \<Rightarrow> []),
                          resBody = b \<rparr>))))"

definition Response_bodyUsed :: "heap \<Rightarrow> response \<Rightarrow> bool" where
  "Response_bodyUsed h r = bodyUsed (bodies h (resBody r))"


text \<open>
  Modelled from the spec: the members of a \<open>Response\<close> are \<open>status\<close>,
  \<open>statusText\<close>, \<open>ok\<close>, \<open>type\<close>, \<open>headers\<close>, \<open>url\<close>, \<open>bodyUsed\<close>,
  \<open>body\<close>, \<open>clone\<close> and the five conversions. It has no \<open>slice\<close>: calling it
  is the \<open>TypeError\<close> of calling \<open>undefined\<close>.
\<close>

definition Response_slice :: "response \<Rightarrow> nat \<Rightarrow> error + jsvalue" where
  "Response_slice r n = Inl (NotAFunction ''slice'')"

section \<open>Streams\<close>

text \<open>
  The controller of a \<open>ReadableStream\<close>, as the platform defines it: \<open>enqueue\<close>
  and \<open>close\<close> throw on a stream that is not readable, \<open>error\<close> does nothing
  there.
\<close>

definition newStream :: "heap \<Rightarrow> heap \<times> ref" where
  "newStream h =
     (h\<lparr> nextRef := Suc (nextRef h),
         streams := (streams h)(nextRef h := \<lparr> chunks = [], state = Readable, locked = False \<rparr>) \<rparr>,
      nextRef h)"

definition enqueue :: "heap \<Rightarrow> ref \<Rightarrow> byte list \<Rightarrow> error + heap" where
  "enqueue h s bs =
     (if state (streams h s) = Readable
      then Inr (h\<lparr> streams := (streams h)(s := (streams h s)\<lparr> chunks := chunks (streams h s) @ [bs] \<rparr>) \<rparr>)
      else Inl StreamStateError)"

definition closeStream :: "heap \<Rightarrow> ref \<Rightarrow> error + heap" where
  "closeStream h s =
     (if state (streams h s) = Readable
      then Inr (h\<lparr> streams := (streams h)(s := (streams h s)\<lparr> state := Closed \<rparr>) \<rparr>)
      else Inl StreamStateError)"

definition errorStream :: "heap \<Rightarrow> ref \<Rightarrow> error \<Rightarrow> heap" where
  "errorStream h s e =
     (if state (streams h s) = Readable
      then h\<lparr> streams := (streams h)(s := (streams h s)\<lparr> chunks := [], state := Errored e \<rparr>) \<rparr>
      else h)"

section \<open>StreamBlobResponse\<close>

text \<open>
  Three responses over one payload. The blob data stands for the blob that
  \<open>BlobManager.createFromOptions\<close> makes of it. \<open>arrayBufferResponse\<close> is
  \<open>None\<close> until the buffer is there.
\<close>

record streamBlobResponse =
  blobData :: blob
  blobResponse :: response
  streamResponse :: response
  blobArrayBuffer :: "ref option"
  arrayBufferResponse :: "response option"

text \<open>
  The constructor. With a buffer given, the third response is built on it and the buffer
  is enqueued; otherwise the blob is read first, and the construction is rejected when
  the read is.
\<close>

definition StreamBlobResponse_new ::
  "platform \<Rightarrow> heap \<Rightarrow> blob \<Rightarrow> ref \<Rightarrow> ref \<Rightarrow> responseInit \<Rightarrow> ref option \<Rightarrow>
   error + (heap \<times> streamBlobResponse)" where
  "StreamBlobResponse_new P h bd stream controller init buf =
     (case Response_new h (BlobV bd) init of
        Inl e \<Rightarrow> Inl e
      | Inr (h1, br) \<Rightarrow>
          (case Response_new h1 (ReadableStreamV stream) init of
             Inl e \<Rightarrow> Inl e
           | Inr (h2, sr) \<Rightarrow>
               (case (case buf of
                        Some r \<Rightarrow> Inr (h2, r)
                      | None \<Rightarrow>
                          (case readAsArrayBuffer P bd of
                             Inl e \<Rightarrow> Inl e
                           | Inr bs \<Rightarrow> Inr (newBuffer h2 bs))) of
                  Inl e \<Rightarrow> Inl e
                | Inr (h3, r) \<Rightarrow>
                    (case Response_new h3 (ArrayBufferV r) init of
                       Inl e \<Rightarrow> Inl e
                     | Inr (h4, ar) \<Rightarrow>
                         (case enqueue h4 controller (buffers h4 r) of
                            Inl e \<Rightarrow> Inl e
                          | Inr h5 \<Rightarrow>
                              Inr (h5, \<lparr> blobData = bd, blobResponse = br, streamResponse = sr,
                                        blobArrayBuffer = Some r,
                                        arrayBufferResponse = Some ar \<rparr>))))))"

text \<open>The \<open>bodyUsed\<close> getter: the flags of the three bodies, joined by \<open>||\<close>.\<close>

definition StreamBlobResponse_bodyUsed :: "heap \<Rightarrow> streamBlobResponse \<Rightarrow> error + bool" where
  "StreamBlobResponse_bodyUsed h x =
     (if Response_bodyUsed h (blobResponse x) then Inr True
      else if Response_bodyUsed h (streamResponse x) then Inr True
      else (case arrayBufferResponse x of
              None \<Rightarrow> Inl (UndefinedMember ''bodyUsed'')
            | Some ar \<Rightarrow> Inr (Response_bodyUsed h ar)))"


text \<open>
  \<open>clone\<close>: a new stream, then the arguments of the constructor in order: the copy
  of the headers, and \<open>this._arrayBufferResponse.slice(0)\<close>, a call on a
  \<open>Response\<close>.
\<close>

definition StreamBlobResponse_clone ::
  "platform \<Rightarrow> heap \<Rightarrow> streamBlobResponse \<Rightarrow> heap \<times> (error + streamBlobResponse)" where
  "StreamBlobResponse_clone P h x =
     (case newStream h of
        (h1, s) \<Rightarrow>
          (case Headers_new h1 (Some (HeadersObj (resHeaders (blobResponse x)))) of
             Inl e \<Rightarrow> (h1, Inl e)
           | Inr (h2, a) \<Rightarrow>
               (case arrayBufferResponse x of
                  None \<Rightarrow> (h2, Inl (UndefinedMember ''slice''))
                | Some ar \<Rightarrow>
                    (case Response_slice ar 0 of
                       Inl e \<Rightarrow> (h2, Inl e)
                     | Inr v \<Rightarrow>
                         (case StreamBlobResponse_new P h2 (blobData x) s s
                                 \<lparr> i_status = Some (status (blobResponse x)),
                                   i_statusText = Some (statusText (blobResponse x)),
                                   i_headers = Some (HeadersObj a),
                                   i_url = Some (resUrl (blobResponse x)) \<rparr>
                                 (case v of ArrayBufferV r \<Rightarrow> Some r | _ \<Rightarrow> None) of
                            Inl e \<Rightarrow> (h2, Inl e)
                          | Inr (h3, y) \<Rightarrow> (h3, Inr y))))))"

section \<open>The UTF-8 encoder\<close>

text \<open>
  \<open>TextEncoder.encode\<close> as the Encoding Standard defines it: the string is read as
  code points, a surrogate that is not part of a pair as U+FFFD, and each code point is
  written in UTF-8. The encoder keeps nothing between two calls.
\<close>

definition isHigh :: "16 word \<Rightarrow> bool" where
  "isHigh u = (0xD800 \<le> u \<and> u \<le> 0xDBFF)"

definition isLow :: "16 word \<Rightarrow> bool" where
  "isLow u = (0xDC00 \<le> u \<and> u \<le> 0xDFFF)"

definition utf8 :: "nat \<Rightarrow> byte list" where
  "utf8 c =
     (if c < 0x80 then [of_nat c]
      else if c < 0x800 then [of_nat (0xC0 + c div 64), of_nat (0x80 + c mod 64)]
      else if c < 0x10000 then
        [of_nat (0xE0 + c div 4096), of_nat (0x80 + c div 64 mod 64), of_nat (0x80 + c mod 64)]
      else
        [of_nat (0xF0 + c div 262144), of_nat (0x80 + c div 4096 mod 64),
         of_nat (0x80 + c div 64 mod 64), of_nat (0x80 + c mod 64)])"

definition scalar :: "16 word \<Rightarrow> nat" where
  "scalar u = (if isHigh u \<or> isLow u then 0xFFFD else unat u)"

fun encode :: "jsstring \<Rightarrow> byte list" where
  "encode [] = []"
| "encode [u] = utf8 (scalar u)"
| "encode (u # v # s) =
     (if isHigh u \<and> isLow v
      then utf8 (0x10000 + (unat u - 0xD800) * 1024 + (unat v - 0xDC00)) @ encode s
      else utf8 (scalar u) @ encode (v # s))"

section \<open>Fetch\<close>

text \<open>What the engine asks of the native networking module.\<close>

datatype nativeCall =
    SendRequest string string "(string \<times> string) list" jsvalue string bool nat bool
  | AbortRequest "nat option"

text \<open>
  The fields of a \<open>Fetch\<close> object. \<open>subscribed\<close> says whether the five network
  listeners are registered, \<open>abortListener\<close> whether \<open>_abortFn\<close> listens on the
  signal. \<open>streamController\<close> is the field the network handlers assign and use;
  \<open>readableStreamController\<close> is the field \<open>__abort\<close> reads, which nothing
  assigns. \<open>native\<close> is the list of calls made to the networking module.
\<close>

record fetch =
  frequest :: request
  subscribed :: bool
  abortListener :: bool
  nativeResponseType :: string
  nativeRequestHeaders :: "(string \<times> string) list"
  nativeResponse :: "jsvalue option"
  responseTextOffset :: nat
  requestId :: "nat option"
  fresponse :: "response option"
  streamController :: "ref option"
  readableStreamController :: "ref option"
  deferredPromise :: "response promise"
  native :: "nativeCall list"

text \<open>A promise settles once.\<close>

definition resolve :: "'a promise \<Rightarrow> 'a \<Rightarrow> 'a promise" where
  "resolve p v = (case p of Pending \<Rightarrow> Fulfilled v | _ \<Rightarrow> p)"

definition reject :: "'a promise \<Rightarrow> error \<Rightarrow> 'a promise" where
  "reject p e = (case p of Pending \<Rightarrow> Rejected e | _ \<Rightarrow> p)"

text \<open>
  The constructor and \<open>__doFetch\<close>: the request is built, its headers are flattened,
  an aborted signal throws, the listeners are registered and the request is handed to
  the networking module.
\<close>

definition Fetch_new :: "heap \<Rightarrow> input \<Rightarrow> options \<Rightarrow> heap \<times> (error + fetch)" where
  "Fetch_new h resource opts =
     (case Request_new h resource opts of
        (h1, Inl e) \<Rightarrow> (h1, Inl e)
      | (h1, Inr rq) \<Rightarrow>
          (case headers rq of
             PlainObject kvs \<Rightarrow> (h1, Inl (NotAFunction ''entries''))
           | HeadersObj a \<Rightarrow>
               (if (case signal rq of Some sg \<Rightarrow> aborted h1 sg | None \<Rightarrow> False)
                then (h1, Inl AbortError)
                else
                  (h1, Inr \<lparr> frequest = rq, subscribed = True,
                            abortListener = (signal rq \<noteq> None),
                            nativeResponseType = ''blob'',
                            nativeRequestHeaders = headerTabs h1 a,
                            nativeResponse = None, responseTextOffset = 0,
                            requestId = None, fresponse = None, streamController = None,
                            readableStreamController = None, deferredPromise = Pending,
                            native =
                              [SendRequest (rmethod rq) (url rq) (headerTabs h1 a)
                                 (case bodyInit (bodies h1 (rbody rq)) of
                                    Undefined \<Rightarrow> Null | v \<Rightarrow> v)
                                 ''blob'' (''blob'' = ''text'') 0
                                 (credentials rq \<in> set [''include'', ''same-origin''])] \<rparr>))))"

text \<open>
  What reaches the engine: the callback of \<open>sendRequest\<close>, the five network events,
  the \<open>abort\<close> event of the signal, and the consumer cancelling the stream.
\<close>

datatype event =
    DidCreateRequest nat
  | DidReceiveNetworkResponse nat nat "(string \<times> string) list" string
  | DidReceiveNetworkData nat jsvalue
  | DidReceiveNetworkIncrementalData nat jsstring nat nat
  | DidReceiveNetworkDataProgress nat nat nat
  | DidCompleteNetworkResponse nat "jsstring option" bool
  | SignalAbort
  | StreamCancel

definition clearNetworkSubscriptions :: "fetch \<Rightarrow> fetch" where
  "clearNetworkSubscriptions f = f\<lparr> subscribed := False \<rparr>"

text \<open>
  Each handler returns the store, the engine and the exception that left the handler,
  if one did.
\<close>

definition abort :: "heap \<Rightarrow> fetch \<Rightarrow> heap \<times> fetch \<times> error option" where
  "abort h f =
     (let f1 = clearNetworkSubscriptions (f\<lparr> native := native f @ [AbortRequest (requestId f)] \<rparr>) in
      case readableStreamController f1 of
        None \<Rightarrow> (h, f1, Some (UndefinedMember ''error''))
      | Some c \<Rightarrow>
          (errorStream h c AbortError,
           f1\<lparr> deferredPromise := reject (deferredPromise f1) AbortError \<rparr>, None))"

definition didReceiveNetworkResponse ::
  "heap \<Rightarrow> fetch \<Rightarrow> nat \<Rightarrow> nat \<Rightarrow> (string \<times> string) list \<Rightarrow> string \<Rightarrow> heap \<times> fetch \<times> error option" where
  "didReceiveNetworkResponse h f rid st hs u =
     (if Some rid \<noteq> requestId f then (h, f, None)
      else
        (case newStream h of
           (h1, s) \<Rightarrow>
             (let f1 = f\<lparr> streamController := Some s \<rparr> in
              case Response_new h1 (ReadableStreamV s)
                     \<lparr> i_status = Some st, i_statusText = None,
                       i_headers = Some (PlainObject hs), i_url = Some u \<rparr> of
                Inl e \<Rightarrow> (h1, f1, Some e)
              | Inr (h2, r) \<Rightarrow>
                  (h2, f1\<lparr> fresponse := Some r,
                           deferredPromise := resolve (deferredPromise f1) r \<rparr>, None))))"

definition didReceiveNetworkData :: "heap \<Rightarrow> fetch \<Rightarrow> nat \<Rightarrow> jsvalue \<Rightarrow> heap \<times> fetch \<times> error option" where
  "didReceiveNetworkData h f rid v =
     (if Some rid \<noteq> requestId f then (h, f, None)
      else (h, f\<lparr> nativeResponse := Some v \<rparr>, None))"

definition didReceiveNetworkIncrementalData ::
  "heap \<Rightarrow> fetch \<Rightarrow> nat \<Rightarrow> jsstring \<Rightarrow> heap \<times> fetch \<times> error option" where
  "didReceiveNetworkIncrementalData h f rid responseText =
     (if Some rid \<noteq> requestId f then (h, f, None)
      else
        (let newText = drop (responseTextOffset f) responseText;
             typedArray = encode newText;
             f1 = f\<lparr> responseTextOffset := length responseText \<rparr> in
         case streamController f1 of
           None \<Rightarrow> (h, f1, Some (UndefinedMember ''enqueue''))
         | Some s \<Rightarrow>
             (case enqueue h s typedArray of
                Inl e \<Rightarrow> (h, f1, Some e)
              | Inr h1 \<Rightarrow> (h1, f1, None))))"

text \<open>
  \<open>enqueueSingleChunk\<close>, run on completion when a payload has arrived; what it
  throws is lost with its promise.
\<close>

definition enqueueSingleChunk :: "platform \<Rightarrow> heap \<Rightarrow> fetch \<Rightarrow> heap" where
  "enqueueSingleChunk P h f =
     (case streamController f of
        None \<Rightarrow> h
      | Some s \<Rightarrow>
          (case (if nativeResponseType f = ''base64''
                 then enqueue h s (toByteArray P
                        (case nativeResponse f of Some v \<Rightarrow> toString v | None \<Rightarrow> []))
                 else Inr h) of
             Inl e \<Rightarrow> h
           | Inr h1 \<Rightarrow>
               (case (if nativeResponseType f = ''blob''
                      then
                        (case nativeResponse f of
                           Some (BlobV bl) \<Rightarrow>
                             (case readAsArrayBuffer P bl of
                                Inl e \<Rightarrow> Inl e
                              | Inr bs \<Rightarrow> enqueue h1 s bs)
                         | _ \<Rightarrow> Inl (PlatformError ''blob''))
                      else Inr h1) of
                  Inl e \<Rightarrow> h1
                | Inr h2 \<Rightarrow> (case closeStream h2 s of Inl e \<Rightarrow> h2 | Inr h3 \<Rightarrow> h3))))"

definition didCompleteNetworkResponse ::
  "platform \<Rightarrow> heap \<Rightarrow> fetch \<Rightarrow> nat \<Rightarrow> jsstring option \<Rightarrow> bool \<Rightarrow> heap \<times> fetch \<times> error option" where
  "didCompleteNetworkResponse P h f rid errorMessage didTimeOut =
     (if Some rid \<noteq> requestId f then (h, f, None)
      else
        (let f1 = (clearNetworkSubscriptions f)\<lparr> abortListener := False \<rparr> in
         if didTimeOut
         then (h, f1\<lparr> deferredPromise := reject (deferredPromise f1) NetworkTimedOut \<rparr>, None)
         else
           (case errorMessage of
              Some (c # cs) \<Rightarrow>
                (h, f1\<lparr> deferredPromise := reject (deferredPromise f1) (NetworkFailed (c # cs)) \<rparr>,
                 None)
            | _ \<Rightarrow>
                (if (case nativeResponse f1 of Some v \<Rightarrow> truthy v | None \<Rightarrow> False)
                 then (enqueueSingleChunk P h f1, f1, None)
                 else
                   (case streamController f1 of
                      None \<Rightarrow> (h, f1, None)
                    | Some s \<Rightarrow>
                        (case closeStream h s of
                           Inl e \<Rightarrow> (h, f1, Some e)
                         | Inr h1 \<Rightarrow> (h1, f1, None)))))))"

text \<open>
  The cancel callback of the stream made by \<open>createStream\<close>; the platform then
  closes the stream.
\<close>

definition streamCancel :: "heap \<Rightarrow> fetch \<Rightarrow> heap \<times> fetch \<times> error option" where
  "streamCancel h f =
     (case streamController f of
        None \<Rightarrow> (h, f, None)
      | Some s \<Rightarrow>
          (if state (streams h s) \<noteq> Readable then (h, f, None)
           else
             (h\<lparr> streams := (streams h)(s := (streams h s)\<lparr> chunks := [], state := Closed \<rparr>) \<rparr>,
              (clearNetworkSubscriptions f)\<lparr> native := native f @ [AbortRequest (requestId f)] \<rparr>,
              None)))"

text \<open>
  Delivery: the callback of \<open>sendRequest\<close> always arrives, a network event only
  while the listeners are registered, the \<open>abort\<close> event only while \<open>_abortFn\<close>
  listens.
\<close>

fun deliver :: "platform \<Rightarrow> heap \<Rightarrow> fetch \<Rightarrow> event \<Rightarrow> heap \<times> fetch \<times> error option" where
  "deliver P h f (DidCreateRequest rid) = (h, f\<lparr> requestId := Some rid \<rparr>, None)"
| "deliver P h f (DidReceiveNetworkResponse rid st hs u) =
     (if subscribed f then didReceiveNetworkResponse h f rid st hs u else (h, f, None))"
| "deliver P h f (DidReceiveNetworkData rid v) =
     (if subscribed f then didReceiveNetworkData h f rid v else (h, f, None))"
| "deliver P h f (DidReceiveNetworkIncrementalData rid t progress tot) =
     (if subscribed f then didReceiveNetworkIncrementalData h f rid t else (h, f, None))"
| "deliver P h f (DidReceiveNetworkDataProgress rid loaded tot) = (h, f, None)"
| "deliver P h f (DidCompleteNetworkResponse rid errorMessage didTimeOut) =
     (if subscribed f then didCompleteNetworkResponse P h f rid errorMessage didTimeOut
      else (h, f, None))"
| "deliver P h f SignalAbort = (if abortListener f then abort h f else (h, f, None))"
| "deliver P h f StreamCancel = streamCancel h f"

fun run :: "platform \<Rightarrow> heap \<Rightarrow> fetch \<Rightarrow> event list \<Rightarrow> heap \<times> fetch" where
  "run P h f [] = (h, f)"
| "run P h f (e # es) = (case deliver P h f e of (h1, f1, x) \<Rightarrow> run P h1 f1 es)"

section \<open>Notions used in the properties\<close>

text \<open>
  A platform to run the model on examples. As the comments of the source say of React
  Native, its \<open>FileReader\<close> does not read array buffers. Its decoder reads one byte
  as one code unit, which is UTF-8 on ASCII.
\<close>

definition examplePlatform :: platform where
  "examplePlatform =
     \<lparr> utf8Decode = map (\<lambda>b. of_nat (unat b)),
       readAsText = (\<lambda>bl. Inr (concat (map (\<lambda>p. case p of TextPart t \<Rightarrow> t
                         | BytesPart bs \<Rightarrow> map (\<lambda>b. of_nat (unat b)) bs) (blobParts bl)))),
       readAsArrayBuffer = (\<lambda>bl. Inl (PlatformError ''readAsArrayBuffer'')),
       jsonValid = (\<lambda>t. t = js ''{}''),
       decodeURIComponent = Inr,
       toByteArray = (\<lambda>t. []) \<rparr>"

text \<open>
  Two bodies have the same content when their payload fields agree, a buffer being
  compared by the bytes it holds in its store.
\<close>

definition sameContent :: "heap \<Rightarrow> body \<Rightarrow> heap \<Rightarrow> body \<Rightarrow> bool" where
  "sameContent h B h' B' =
     (bodyText B = bodyText B' \<and> bodyBlob B = bodyBlob B' \<and> bodyFormData B = bodyFormData B'
      \<and> bodyReadableStream B = bodyReadableStream B' \<and> mimeType B = mimeType B'
      \<and> map_option (bytesOf h) (bodyArrayBuffer B) = map_option (bytesOf h') (bodyArrayBuffer B'))"

text \<open>
  A body is intact when the constructor, run now on the value the body was made of,
  gives the same content: the body is as it was constructed, and a buffer the caller
  passed still holds the bytes that were copied.
\<close>

definition intact :: "heap \<Rightarrow> body \<Rightarrow> bool" where
  "intact h B =
     (case Body_fields h (bodyInit B) of
        Inl e \<Rightarrow> False
      | Inr (h1, B1) \<Rightarrow> sameContent h B h1 B1)"

text \<open>
  What the constructor guarantees of a request: its body and headers are objects of
  the store, the headers a \<open>Headers\<close> object, the body intact and not a stream, and
  no body with \<open>GET\<close> or \<open>HEAD\<close>.
\<close>

definition wellFormed :: "heap \<Rightarrow> request \<Rightarrow> bool" where
  "wellFormed h r =
     (rbody r < nextRef h
      \<and> (case headers r of HeadersObj a \<Rightarrow> a < nextRef h | PlainObject kvs \<Rightarrow> False)
      \<and> intact h (bodies h (rbody r))
      \<and> bodyReadableStream (bodies h (rbody r)) = None
      \<and> (truthy (bodyInit (bodies h (rbody r))) \<longrightarrow> rmethod r \<notin> {''GET'', ''HEAD''}))"

text \<open>A buffer given as a body is an object of the store.\<close>

definition bufferExists :: "heap \<Rightarrow> jsvalue \<Rightarrow> bool" where
  "bufferExists h v =
     (case v of
        ArrayBufferV r \<Rightarrow> r < nextRef h
      | TypedArrayV r off len \<Rightarrow> r < nextRef h
      | _ \<Rightarrow> True)"

text \<open>
  The cumulative texts of incremental data events. \<open>suffixChunks t0 ts\<close> are the
  encodings of what each text adds to the one before, \<open>t0\<close> being the text before the
  first. A text splits a pair when it ends with a high surrogate and its successor goes
  on with a low one. A chain is clean when each text is a prefix of the next and splits
  no pair.
\<close>

definition splitsPair :: "jsstring \<Rightarrow> jsstring \<Rightarrow> bool" where
  "splitsPair t0 t =
     (t0 \<noteq> [] \<and> length t0 < length t \<and> isHigh (last t0) \<and> isLow (t ! length t0))"

fun suffixChunks :: "jsstring \<Rightarrow> jsstring list \<Rightarrow> byte list list" where
  "suffixChunks t0 [] = []"
| "suffixChunks t0 (t # ts) = encode (drop (length t0) t) # suffixChunks t ts"

fun cleanChain :: "jsstring \<Rightarrow> jsstring list \<Rightarrow> bool" where
  "cleanChain t0 [] = True"
| "cleanChain t0 (t # ts) = (prefix t0 t \<and> \<not> splitsPair t0 t \<and> cleanChain t ts)"

definition incrementalEvents :: "nat \<Rightarrow> (jsstring \<times> nat \<times> nat) list \<Rightarrow> event list" where
  "incrementalEvents rid xs = map (\<lambda>(t, p, n). DidReceiveNetworkIncrementalData rid t p n) xs"

definition exampleTexts :: "(jsstring \<times> nat \<times> nat) list" where
  "exampleTexts = [([0x68], 1, 7), ([0x68, 0xE9], 3, 7), ([0x68, 0xE9, 0xD83D, 0xDE00], 7, 7)]"

section \<open>Properties of Body\<close>

text \<open>What a conversion does to the store: it sets the flag of its body, and no other field of any body.\<close>

lemma used_self: "bodyUsed B \<Longrightarrow> B\<lparr> bodyUsed := True \<rparr> = B"
  by simp

lemma consumed_bodies:
  "bodies (fst (consumed h b)) = (bodies h)(b := (bodies h b)\<lparr> bodyUsed := True \<rparr>)"
  by (auto simp: consumed_def fun_eq_iff)

lemma consumed_used: "bodyUsed (bodies h b) \<Longrightarrow> consumed h b = (h, True)"
  by (simp add: consumed_def)

lemma consumed_fresh: "\<not> bodyUsed (bodies h b) \<Longrightarrow>
  consumed h b = (h\<lparr> bodies := (bodies h)(b := (bodies h b)\<lparr> bodyUsed := True \<rparr>) \<rparr>, False)"
  by (simp add: consumed_def)

lemma drainStream_bodies: "drainStream h s = (h', r) \<Longrightarrow> bodies h' = bodies h"
  by (auto simp add: drainStream_def Let_def split: sstatus.splits if_splits)

lemma newBuffer_bodies: "newBuffer h bs = (h', r) \<Longrightarrow> bodies h' = bodies h"
  by (auto simp add: newBuffer_def)

lemma blob_used: "bodyUsed (bodies h b) \<Longrightarrow> Body_blob h b = (h, Rejected AlreadyRead)"
  by (simp add: Body_blob_def consumed_used)

lemma blob_bodies: "bodies (fst (Body_blob h b)) = (bodies h)(b := (bodies h b)\<lparr> bodyUsed := True \<rparr>)"
proof (cases "bodyUsed (bodies h b)")
  case True
  then show ?thesis by (auto simp: blob_used fun_eq_iff)
next
  case False
  then show ?thesis
    by (auto simp: Body_blob_def consumed_fresh Let_def dest!: drainStream_bodies
        split: option.splits prod.splits promise.splits)
qed

lemma text_used: "bodyUsed (bodies h b) \<Longrightarrow> Body_text P h b = (h, Rejected AlreadyRead)"
  by (simp add: Body_text_def consumed_used)

lemma text_bodies: "bodies (fst (Body_text P h b)) = (bodies h)(b := (bodies h b)\<lparr> bodyUsed := True \<rparr>)"
proof (cases "bodyUsed (bodies h b)")
  case True
  then show ?thesis by (auto simp: text_used fun_eq_iff)
next
  case False
  then show ?thesis
    by (auto simp: Body_text_def consumed_fresh Let_def dest!: drainStream_bodies
        split: option.splits prod.splits promise.splits sum.splits)
qed

lemma arrayBuffer_used: "bodyUsed (bodies h b) \<Longrightarrow> Body_arrayBuffer P h b = (h, Rejected AlreadyRead)"
  by (simp add: Body_arrayBuffer_def consumed_used)

lemma arrayBuffer_bodies: "bodies (fst (Body_arrayBuffer P h b)) = (bodies h)(b := (bodies h b)\<lparr> bodyUsed := True \<rparr>)"
proof (cases "bodyUsed (bodies h b)")
  case True
  then show ?thesis by (auto simp: arrayBuffer_used fun_eq_iff)
next
  case False
  let ?h1 = "h\<lparr> bodies := (bodies h)(b := (bodies h b)\<lparr> bodyUsed := True \<rparr>) \<rparr>"
  have u: "bodyUsed (bodies ?h1 b)" by simp
  show ?thesis
    using False blob_used[OF u]
    by (auto simp: Body_arrayBuffer_def consumed_fresh Let_def newBuffer_def dest!: drainStream_bodies
        split: option.splits prod.splits promise.splits sum.splits jsvalue.splits jsresult.splits)
qed



lemma json_bodies: "bodies (fst (Body_json P h b)) = (bodies h)(b := (bodies h b)\<lparr> bodyUsed := True \<rparr>)"
  using text_bodies[of P h b]
  by (auto simp: Body_json_def split: prod.splits promise.splits jsresult.splits)


lemma formData_bodies: "bodies (fst (Body_formData P h b)) = (bodies h)(b := (bodies h b)\<lparr> bodyUsed := True \<rparr>)"
  using text_bodies[of P h b]
  by (auto simp: Body_formData_def split: prod.splits promise.splits jsresult.splits sum.splits)


lemma call_bodies: "bodies (fst (Body_call P h b c)) = (bodies h)(b := (bodies h b)\<lparr> bodyUsed := True \<rparr>)"
  by (cases c) (simp_all add: text_bodies blob_bodies arrayBuffer_bodies json_bodies formData_bodies)











text \<open>
  C7. A body constructed from a string: \<open>text()\<close> returns that string, and
  \<open>arrayBuffer()\<close> on a body freshly constructed from the same string is to succeed
  with the bytes of the string. In the code \<open>arrayBuffer\<close> marks the body used and
  then calls \<open>blob\<close>, which finds the body used: on a fresh body of text, whatever the
  string and the platform, \<open>arrayBuffer()\<close> is rejected with "Already read", while
  \<open>text()\<close> returns the string.
\<close>

theorem arrayBuffer_of_text_body_already_read:
  "(case Body_new h (Str t) of
      Inr (h1, b) \<Rightarrow>
        snd (Body_arrayBuffer P h1 b) = Rejected AlreadyRead
        \<and> snd (Body_text P h1 b) = Fulfilled (RText t)
    | Inl e \<Rightarrow> False)"
  by (simp add: Body_new_def newBodyObject_def Body_arrayBuffer_def Body_text_def
      Body_blob_def consumed_def emptyBody_def)

text \<open>
  A body made of an \<open>ArrayBuffer\<close> or of a typed array keeps its own copy:
  whatever the caller writes into the buffer afterwards, \<open>text()\<close> decodes the
  bytes the buffer held at construction, and \<open>arrayBuffer()\<close> returns another
  buffer than the caller's, holding those bytes.
\<close>

lemma take_min_length: "take (min (length ys) n) ys = take n ys"
  by (simp add: min_def)

lemma body_keeps_its_copy:
  assumes v: "v = ArrayBufferV r \<or> v = TypedArrayV r off len"
    and a: "r < nextRef h"
    and n: "Body_new h v = Inr (h1, b)"
  shows "snd (Body_text P (h1\<lparr> buffers := (buffers h1)(r := bs) \<rparr>) b)
           = Fulfilled (RText (utf8Decode P (bytesOf h v)))"
    and "\<exists>h2 r'. Body_arrayBuffer P (h1\<lparr> buffers := (buffers h1)(r := bs) \<rparr>) b
           = (h2, Fulfilled (RArrayBuffer r')) \<and> r' \<noteq> r \<and> buffers h2 r' = bytesOf h v"
  using v a n take_min_length[of "drop off (buffers h r)" len]
  by (auto simp: Body_new_def newBodyObject_def newBuffer_def emptyBody_def Let_def
      Body_text_def Body_arrayBuffer_def consumed_def)

text \<open>
  C10. Constructing a body from an \<open>ArrayBuffer\<close> or an \<open>ArrayBufferView\<close> is to
  copy the bytes. A \<open>DataView\<close> is an \<open>ArrayBufferView\<close>, and the constructor
  calls its \<open>slice\<close>, which it does not have: no body is constructed, and no
  request with such a body.
\<close>

theorem body_of_dataview_throws:
  "Body_new h (DataViewV r off len) = Inl (NotAFunction ''slice'')
   \<and> snd (Request_new h (UrlIn u) (noOptions\<lparr> o_method := Some ''POST'', o_body := DataViewV r off len \<rparr>))
       = Inl (NotAFunction ''slice'')"
  by (simp add: Body_new_def Request_new_def Request_assemble_def noOptions_def)


section \<open>Properties of Request\<close>

lemma Body_new_falsy:
  "\<not> truthy v \<Longrightarrow> Body_new h v = Inr (newBodyObject h ((emptyBody v)\<lparr> bodyText := Some [] \<rparr>))"
  by (cases v) (simp_all add: Body_new_def)

lemma Body_new_truthy_init:
  "Body_new h v = Inr (h1, b) \<Longrightarrow> bodyInit (bodies h1 b) = v \<and> \<not> bodyUsed (bodies h1 b) \<and> b < nextRef h1 \<and> nextRef h \<le> b"
  by (cases v) (auto simp add: Body_new_def newBodyObject_def emptyBody_def newBuffer_def Let_def split: if_splits)

lemma Body_new_ok:
  "(\<forall>r off len. v \<noteq> DataViewV r off len) \<Longrightarrow> \<exists>h1 b. Body_new h v = Inr (h1, b)"
  by (cases v) (auto simp add: Body_new_def newBodyObject_def newBuffer_def Let_def)

lemma assemble_not_allowed:
  assumes "truthy (o_body opts)" "\<forall>r off len. o_body opts \<noteq> DataViewV r off len"
    "(case o_method opts of Some m \<Rightarrow> m | None \<Rightarrow> (case meth of Some m \<Rightarrow> m | None \<Rightarrow> ''GET'')) \<in> {''GET'', ''HEAD''}"
  shows "snd (Request_assemble h u cred meth sig hdrs None opts) = Inl BodyNotAllowed"
proof -
  obtain h1 b where n: "Body_new h (o_body opts) = Inr (h1, b)"
    using Body_new_ok[OF assms(2)] by blast
  have "bodyInit (bodies h1 b) = o_body opts" using Body_new_truthy_init[OF n] by simp
  then show ?thesis using assms(1,3) n
    by (simp add: Request_assemble_def Let_def)
qed

lemma url_body_not_allowed: "truthy (o_body opts) \<Longrightarrow> \<forall>r off len. o_body opts \<noteq> DataViewV r off len \<Longrightarrow>
  (case o_method opts of Some m \<Rightarrow> m | None \<Rightarrow> ''GET'') \<in> {''GET'', ''HEAD''} \<Longrightarrow>
  snd (Request_new h (UrlIn u) opts) = Inl BodyNotAllowed"
  using assemble_not_allowed[of opts None h u None None None]
  by (cases "o_method opts") (simp_all add: Request_new_def)

lemma Headers_append_err: "Headers_append t n v = Inl e \<Longrightarrow> \<exists>m. e = InvalidHeaderName m"
  by (auto simp: Headers_append_def split: if_splits option.splits)

lemma appendAll_err: "appendAll t kvs = Inl e \<Longrightarrow> \<exists>m. e = InvalidHeaderName m"
proof (induction kvs arbitrary: t)
  case Nil
  then show ?case by simp
next
  case (Cons kv kvs)
  obtain n v where kv: "kv = (n, v)" by (cases kv)
  show ?case
  proof (cases "Headers_append t n v")
    case (Inl e')
    then show ?thesis using Cons.prems kv Headers_append_err[of t n v e'] by simp
  next
    case (Inr t')
    then show ?thesis using Cons.prems kv Cons.IH[of t'] by simp
  qed
qed

lemma Headers_new_err: "Headers_new h init = Inl e \<Longrightarrow> \<exists>m. e = InvalidHeaderName m"
  by (auto simp: Headers_new_def dest: appendAll_err split: option.splits hvalue.splits sum.splits)

lemma url_no_body_accepted: "\<not> truthy (o_body opts) \<Longrightarrow>
  (\<exists>r. snd (Request_new h (UrlIn u) opts) = Inr r) \<or> (\<exists>n. snd (Request_new h (UrlIn u) opts) = Inl (InvalidHeaderName n))"
proof -
  assume f: "\<not> truthy (o_body opts)"
  let ?h1 = "fst (newBodyObject h ((emptyBody (o_body opts))\<lparr> bodyText := Some [] \<rparr>))"
  show ?thesis
  proof (cases "Headers_new ?h1 (o_headers opts)")
    case (Inl e)
    then have "\<exists>n. e = InvalidHeaderName n"
      using Headers_new_err by blast
    then show ?thesis using Inl f
      by (auto simp add: Request_new_def Request_assemble_def Body_new_falsy newBodyObject_def emptyBody_def Let_def)
  next
    case (Inr p)
    then show ?thesis using f
      by (cases p) (auto simp add: Request_new_def Request_assemble_def Body_new_falsy newBodyObject_def emptyBody_def Let_def)
  qed
qed


lemma Body_fields_frame:
  "Body_fields h v = Inr (h0, B) \<Longrightarrow>
     bodies h0 = bodies h \<and> headerTabs h0 = headerTabs h \<and> streams h0 = streams h
     \<and> aborted h0 = aborted h \<and> nextRef h \<le> nextRef h0
     \<and> (\<forall>r. r < nextRef h \<longrightarrow> buffers h0 r = buffers h r)
     \<and> bodyInit B = v \<and> \<not> bodyUsed B"
  by (cases v) (auto simp: newBuffer_def emptyBody_def Let_def split: if_splits)

lemma Body_fields_content:
  "buffers k = buffers h \<Longrightarrow> Body_fields h v = Inr (h0, B) \<Longrightarrow>
   \<exists>k0 B'. Body_fields k v = Inr (k0, B') \<and> sameContent k0 B' h0 B"
  by (cases v) (auto simp: newBuffer_def emptyBody_def Let_def sameContent_def split: if_splits)

lemma Body_new_char:
  "Body_new h v = Inr (h1, b) \<Longrightarrow>
   \<exists>h0 B. Body_fields h v = Inr (h0, B) \<and> b = nextRef h0
      \<and> h1 = h0\<lparr> nextRef := Suc (nextRef h0), bodies := (bodies h0)(nextRef h0 := B) \<rparr>"
  by (auto simp: Body_new_def newBodyObject_def split: sum.splits)

lemma Body_new_of_fields:
  "Body_fields h v = Inr (h0, B) \<Longrightarrow>
   Body_new h v = Inr (h0\<lparr> nextRef := Suc (nextRef h0), bodies := (bodies h0)(nextRef h0 := B) \<rparr>, nextRef h0)"
  by (simp add: Body_new_def newBodyObject_def)

lemma sameContent_trans:
  "sameContent h1 B1 h2 B2 \<Longrightarrow> sameContent h2 B2 h3 B3 \<Longrightarrow> sameContent h1 B1 h3 B3"
  by (simp add: sameContent_def)

lemma sameContent_sym: "sameContent h1 B1 h2 B2 \<Longrightarrow> sameContent h2 B2 h1 B1"
  by (simp add: sameContent_def)

lemma sameContent_heap:
  "buffers h' = buffers h \<Longrightarrow> sameContent h' B k C = sameContent h B k C"
proof -
  assume "buffers h' = buffers h"
  then have "bytesOf h' = bytesOf h"
    by (intro ext) (rename_tac v, case_tac v, simp_all)
  then show ?thesis by (simp add: sameContent_def)
qed

lemma sameContent_used:
  "sameContent h (B\<lparr> bodyUsed := u \<rparr>) k C = sameContent h B k C"
  by (simp add: sameContent_def)



lemma assemble_given_body_ok:
  assumes "bodyReadableStream (bodies h b) = None"
    "truthy (bodyInit (bodies h b)) \<longrightarrow> (case o_method opts of Some m \<Rightarrow> m | None \<Rightarrow> m0) \<notin> {''GET'', ''HEAD''}"
  shows "\<exists>r2. snd (Request_assemble h u (Some c0) (Some m0) sg (Some (HeadersObj a)) (Some b) opts) = Inr r2"
  using assms
  by (auto simp: Request_assemble_def Let_def split: option.splits)






lemmas evalDefs = Request_new_def Request_assemble_def handleRequestInput_def noOptions_def
  Body_new_def newBodyObject_def newBuffer_def emptyHeap_def emptyBody_def Headers_new_def
  newHeadersObject_def Headers_has_def truthyMime_def Let_def lowerChar_def js_def
  Request_call_def Body_text_def Body_blob_def Body_arrayBuffer_def consumed_def


text \<open>
  The constructor, given a URL and a body whose buffer exists, returns a well-formed
  request.
\<close>

lemma Body_fields_same_bytes:
  "bytesOf k v = bytesOf h v \<Longrightarrow> Body_fields h v = Inr (h0, B) \<Longrightarrow>
   \<exists>k0 B'. Body_fields k v = Inr (k0, B') \<and> sameContent k0 B' h0 B"
  by (cases v) (auto simp: newBuffer_def emptyBody_def Let_def sameContent_def split: if_splits)

lemma Headers_new_frame:
  "Headers_new h init = Inr (h2, a) \<Longrightarrow>
   a = nextRef h \<and> nextRef h2 = Suc (nextRef h) \<and> bodies h2 = bodies h \<and> buffers h2 = buffers h"
  by (auto simp: Headers_new_def newHeadersObject_def split: option.splits hvalue.splits sum.splits)

lemma assemble_fresh:
  "Request_assemble h u None None None None None opts = (h', Inr r) \<Longrightarrow>
   \<exists>h1 h2 a. Body_new h (o_body opts) = Inr (h1, rbody r)
      \<and> Headers_new h1 (o_headers opts) = Inr (h2, a) \<and> headers r = HeadersObj a
      \<and> bodies h' = bodies h2 \<and> buffers h' = buffers h2 \<and> nextRef h' = nextRef h2
      \<and> bodyReadableStream (bodies h1 (rbody r)) = None
      \<and> (truthy (bodyInit (bodies h1 (rbody r))) \<longrightarrow> rmethod r \<notin> {''GET'', ''HEAD''})"
  by (auto simp: Request_assemble_def Let_def split: if_splits sum.splits option.splits)

lemma constructor_gives_wellFormed:
  assumes rn: "Request_new h (UrlIn u) opts = (h', Inr r)"
    and be: "bufferExists h (o_body opts)"
  shows "wellFormed h' r"
proof -
  let ?v = "o_body opts"
  obtain h1 h2 a where bn: "Body_new h ?v = Inr (h1, rbody r)"
    and hn: "Headers_new h1 (o_headers opts) = Inr (h2, a)" and hr: "headers r = HeadersObj a"
    and fr: "bodies h' = bodies h2" "buffers h' = buffers h2" "nextRef h' = nextRef h2"
    and ns: "bodyReadableStream (bodies h1 (rbody r)) = None"
    and mm: "truthy (bodyInit (bodies h1 (rbody r))) \<longrightarrow> rmethod r \<notin> {''GET'', ''HEAD''}"
    using assemble_fresh[of h u opts h' r] rn by (auto simp: Request_new_def)
  obtain h0 B where bf: "Body_fields h ?v = Inr (h0, B)" and b: "rbody r = nextRef h0"
    and h1: "h1 = h0\<lparr> nextRef := Suc (nextRef h0), bodies := (bodies h0)(nextRef h0 := B) \<rparr>"
    using Body_new_char[OF bn] by blast
  note f0 = Body_fields_frame[OF bf]
  note fh = Headers_new_frame[OF hn]
  have B: "bodies h' (rbody r) = B" using fr fh h1 b by simp
  have bu: "buffers h' = buffers h0" using fr fh h1 by simp
  have "bytesOf h' ?v = bytesOf h ?v"
    using be f0 bu bf by (cases ?v) (simp_all add: bufferExists_def)
  then obtain k0 B' where bk: "Body_fields h' ?v = Inr (k0, B')" and sk: "sameContent k0 B' h0 B"
    using Body_fields_same_bytes[OF _ bf] by blast
  have "sameContent h' B h0 B" using sameContent_heap[OF bu, of B h0 B] by (simp add: sameContent_def)
  then have "sameContent h' B k0 B'" using sk sameContent_sym sameContent_trans by blast
  then have i: "intact h' (bodies h' (rbody r))" using B bk f0 by (simp add: intact_def)
  have l: "rbody r < nextRef h'" "a < nextRef h'" using fr fh h1 b by simp_all
  show ?thesis using i l hr ns mm B h1 b by (simp add: wellFormed_def)
qed






text \<open>
  C8, as amended. The method of a constructed request is the method of the options as
  it is given, without any change of case; without one it is the method of the request
  given as input, and \<open>GET\<close> for any other input.
\<close>

theorem request_method_as_given:
  "Request_new h inp opts = (h', Inr r) \<Longrightarrow>
   rmethod r = (case o_method opts of
                  Some m \<Rightarrow> m
                | None \<Rightarrow> (case inp of RequestIn r0 \<Rightarrow> rmethod r0 | UrlIn u \<Rightarrow> ''GET''))"
  by (auto simp add: Request_new_def Request_assemble_def Let_def
      split: input.splits if_splits sum.splits prod.splits option.splits hvalue.splits)

theorem request_method_as_given_witness:
  "(case Request_new emptyHeap (UrlIn ''https://fetch.spec.whatwg.org/'')
           (noOptions\<lparr> o_method := Some ''post'', o_body := Str (js ''I work out'') \<rparr>) of
      (h', Inr r) \<Rightarrow> rmethod r = ''post''
    | (h', Inl e) \<Rightarrow> False)"
proof -
  obtain h' r where e: "Request_new emptyHeap (UrlIn ''https://fetch.spec.whatwg.org/'')
           (noOptions\<lparr> o_method := Some ''post'', o_body := Str (js ''I work out'') \<rparr>) = (h', Inr r)"
    by (simp add: evalDefs)
  from request_method_as_given[OF e] have "rmethod r = ''post''" by (simp add: noOptions_def)
  with e show ?thesis by simp
qed


text \<open>A method given in lower case stays in lower case.\<close>

theorem lowercase_method_kept:
  "(case snd (Request_new emptyHeap (UrlIn ''https://fetch.spec.whatwg.org/'')
           (noOptions\<lparr> o_method := Some ''post'', o_body := Str (js ''I work out'') \<rparr>)) of
      Inr r \<Rightarrow> rmethod r = ''post'' \<and> rmethod r \<noteq> map upperChar ''post''
    | Inl e \<Rightarrow> False)"
  by (simp add: evalDefs upperChar_def)

lemma handle_keeps_body:
  "truthy (o_body opts) \<Longrightarrow> headers r0 = HeadersObj a \<Longrightarrow>
   \<exists>h1 hv. handleRequestInput h r0 opts = (h1, Inr (hv, None))"
  by (simp add: handleRequestInput_def Headers_new_def newHeadersObject_def split: option.splits)


text \<open>
  C9, as amended. With the method \<open>GET\<close> or \<open>HEAD\<close>, constructing a request
  with a body that is present (any truthy value: a non-empty string or any object, be
  it a blob or a buffer of no bytes) throws "Body not allowed", from a URL as from
  another request; the constructor returns no request then. With no body (undefined,
  null or the empty string) the construction from a URL succeeds unless a header name
  is invalid. A \<open>DataView\<close> is left out.
\<close>

theorem body_with_get_or_head:
  "(truthy (o_body opts) \<and> (\<forall>r off len. o_body opts \<noteq> DataViewV r off len)
      \<and> (case o_method opts of Some m \<Rightarrow> m | None \<Rightarrow> ''GET'') \<in> {''GET'', ''HEAD''}
      \<longrightarrow> snd (Request_new h (UrlIn u) opts) = Inl BodyNotAllowed)
   \<and> (truthy (o_body opts) \<and> (\<forall>r off len. o_body opts \<noteq> DataViewV r off len)
      \<and> \<not> bodyUsed (bodies h (rbody r0)) \<and> headers r0 = HeadersObj a
      \<and> (case o_method opts of Some m \<Rightarrow> m | None \<Rightarrow> rmethod r0) \<in> {''GET'', ''HEAD''}
      \<longrightarrow> snd (Request_new h (RequestIn r0) opts) = Inl BodyNotAllowed)
   \<and> (\<not> truthy (o_body opts)
      \<longrightarrow> (\<exists>r. snd (Request_new h (UrlIn u) opts) = Inr r)
        \<or> (\<exists>n. snd (Request_new h (UrlIn u) opts) = Inl (InvalidHeaderName n)))"
proof (intro conjI impI)
  assume a: "truthy (o_body opts) \<and> (\<forall>r off len. o_body opts \<noteq> DataViewV r off len)
      \<and> (case o_method opts of Some m \<Rightarrow> m | None \<Rightarrow> ''GET'') \<in> {''GET'', ''HEAD''}"
  then show "snd (Request_new h (UrlIn u) opts) = Inl BodyNotAllowed" using url_body_not_allowed by blast
next
  assume a: "truthy (o_body opts) \<and> (\<forall>r off len. o_body opts \<noteq> DataViewV r off len)
      \<and> \<not> bodyUsed (bodies h (rbody r0)) \<and> headers r0 = HeadersObj a
      \<and> (case o_method opts of Some m \<Rightarrow> m | None \<Rightarrow> rmethod r0) \<in> {''GET'', ''HEAD''}"
  then obtain h1 hv where hd: "handleRequestInput h r0 opts = (h1, Inr (hv, None))"
    using handle_keeps_body by blast
  have m: "(case o_method opts of Some m \<Rightarrow> m
            | None \<Rightarrow> (case Some (rmethod r0) of Some m \<Rightarrow> m | None \<Rightarrow> ''GET'')) \<in> {''GET'', ''HEAD''}"
    using a by (simp split: option.splits)
  show "snd (Request_new h (RequestIn r0) opts) = Inl BodyNotAllowed"
    using a hd assemble_not_allowed[OF a[THEN conjunct1] a[THEN conjunct2, THEN conjunct1] m,
        of h1 "url r0" "Some (credentials r0)" "signal r0" "Some hv"]
    by (simp add: Request_new_def)
next
  assume "\<not> truthy (o_body opts)"
  then show "(\<exists>r. snd (Request_new h (UrlIn u) opts) = Inr r)
        \<or> (\<exists>n. snd (Request_new h (UrlIn u) opts) = Inl (InvalidHeaderName n))"
    using url_no_body_accepted by blast
qed

theorem body_with_get_or_head_witness:
  "snd (Request_new emptyHeap (UrlIn ''/request'')
          (noOptions\<lparr> o_method := Some ''GET'', o_body := Str (js ''invalid'') \<rparr>)) = Inl BodyNotAllowed
   \<and> snd (Request_new emptyHeap (UrlIn [])
          (noOptions\<lparr> o_method := Some ''HEAD'', o_body := Str (js ''invalid'') \<rparr>)) = Inl BodyNotAllowed
   \<and> \<not> truthy (o_body (noOptions\<lparr> o_body := Str [] \<rparr>))
   \<and> (\<exists>r. snd (Request_new emptyHeap (UrlIn ''/request'') (noOptions\<lparr> o_body := Str [] \<rparr>)) = Inr r)"
proof -
  have t: "truthy (o_body (noOptions\<lparr> o_method := Some m, o_body := Str (js ''invalid'') \<rparr>))
      \<and> (\<forall>r off len. o_body (noOptions\<lparr> o_method := Some m, o_body := Str (js ''invalid'') \<rparr>) \<noteq> DataViewV r off len)" for m
    by (simp add: js_def)
  have g: "snd (Request_new emptyHeap (UrlIn ''/request'')
          (noOptions\<lparr> o_method := Some ''GET'', o_body := Str (js ''invalid'') \<rparr>)) = Inl BodyNotAllowed"
    using body_with_get_or_head[of "noOptions\<lparr> o_method := Some ''GET'', o_body := Str (js ''invalid'') \<rparr>"
        emptyHeap "''/request''"] t[of "''GET''"]
    by simp
  have hd: "snd (Request_new emptyHeap (UrlIn [])
          (noOptions\<lparr> o_method := Some ''HEAD'', o_body := Str (js ''invalid'') \<rparr>)) = Inl BodyNotAllowed"
    using body_with_get_or_head[of "noOptions\<lparr> o_method := Some ''HEAD'', o_body := Str (js ''invalid'') \<rparr>"
        emptyHeap "[]"] t[of "''HEAD''"]
    by simp
  have e: "\<exists>r. snd (Request_new emptyHeap (UrlIn ''/request'') (noOptions\<lparr> o_body := Str [] \<rparr>)) = Inr r"
    by (simp add: evalDefs)
  show ?thesis using g hd e by simp
qed


text \<open>
  A blob of no parts and a buffer of no bytes are empty bodies, and the construction
  with \<open>GET\<close> throws.
\<close>

theorem empty_blob_not_allowed:
  "snd (Request_new emptyHeap (UrlIn ''https://fetch.spec.whatwg.org/'')
          (noOptions\<lparr> o_body := BlobV (Blob [] []) \<rparr>)) = Inl BodyNotAllowed
   \<and> (case newBuffer emptyHeap [] of
        (h, r) \<Rightarrow> bytesOf h (ArrayBufferV r) = []
          \<and> snd (Request_new h (UrlIn ''https://fetch.spec.whatwg.org/'')
                  (noOptions\<lparr> o_method := Some ''GET'', o_body := ArrayBufferV r \<rparr>)) = Inl BodyNotAllowed)"
  by (simp add: evalDefs)




text \<open>
  \<open>clone\<close> of a request: on a used body it throws "Already read"; on a well-formed
  unused request it gives a request with a new \<open>Headers\<close> object, holding the
  entries of the original's when those have a \<open>content-type\<close> or the body has no
  MIME type, and a new unused body with the content of the original's; the original
  stays unused, and a conversion on either leaves the other unused.
\<close>

lemma clone_of_used: "bodyUsed (bodies h (rbody r)) \<Longrightarrow> Request_clone h r = (h, Inl AlreadyRead)"
  by (simp add: Request_clone_def Request_new_def)

lemma clone_of_fresh:
  assumes wf: "wellFormed h r" and nu: "\<not> bodyUsed (bodies h (rbody r))"
  shows "\<exists>h' c a B'. Request_clone h r = (h', Inr c) \<and> headers r = HeadersObj a
      \<and> headers c = HeadersObj (nextRef h) \<and> nextRef h \<noteq> a
      \<and> headerTabs h' a = headerTabs h a
      \<and> (Headers_has (headerTabs h a) ''content-type''
            \<or> \<not> truthyMime (mimeType (bodies h (rbody r)))
          \<longrightarrow> headerTabs h' (nextRef h) = headerTabs h a)
      \<and> rbody c \<noteq> rbody r \<and> bodies h' = (bodies h)(rbody c := B') \<and> \<not> bodyUsed B'
      \<and> sameContent h' B' h (bodies h (rbody r))
      \<and> rmethod c = rmethod r \<and> url c = url r \<and> credentials c = credentials r
      \<and> signal c = signal r"
proof -
  let ?B = "bodies h (rbody r)"
  let ?opts = "noOptions\<lparr> o_body := bodyInit ?B \<rparr>"
  obtain a where a: "headers r = HeadersObj a" and al: "a < nextRef h" using wf
    by (auto simp: wellFormed_def split: hvalue.splits)
  obtain hx Bx where fx: "Body_fields h (bodyInit ?B) = Inr (hx, Bx)" and sx: "sameContent h ?B hx Bx"
    using wf by (auto simp: wellFormed_def intact_def split: sum.splits)
  have lt: "rbody r < nextRef h" and ns: "bodyReadableStream ?B = None"
    and mm: "truthy (bodyInit ?B) \<longrightarrow> rmethod r \<notin> {''GET'', ''HEAD''}"
    using wf by (simp_all add: wellFormed_def)
  let ?h1 = "h\<lparr> nextRef := Suc (nextRef h), headerTabs := (headerTabs h)(nextRef h := headerTabs h a) \<rparr>"
  have hd: "handleRequestInput h r ?opts = (?h1, Inr (HeadersObj (nextRef h), None))"
    using a by (simp add: handleRequestInput_def noOptions_def Headers_new_def newHeadersObject_def)
  have b1: "buffers ?h1 = buffers h" by simp
  obtain k0 B' where fk: "Body_fields ?h1 (bodyInit ?B) = Inr (k0, B')" and sk: "sameContent k0 B' hx Bx"
    using Body_fields_content[OF b1 fx] by blast
  note fr = Body_fields_frame[OF fk]
  let ?h2 = "k0\<lparr> nextRef := Suc (nextRef k0), bodies := (bodies k0)(nextRef k0 := B') \<rparr>"
  have bn: "Body_new ?h1 (bodyInit ?B) = Inr (?h2, nextRef k0)"
    using Body_new_of_fields[OF fk] .
  have ne: "nextRef k0 \<noteq> rbody r" using lt fr by simp
  have sB: "sameContent k0 B' h ?B" using sk sx sameContent_sym sameContent_trans by blast
  have st: "bodyReadableStream B' = None" and mt: "mimeType B' = mimeType ?B"
    using sB ns by (simp_all add: sameContent_def)
  have bi: "bodyInit B' = bodyInit ?B" "\<not> bodyUsed B'" using fr by simp_all
  define h3 where "h3 =
     (if \<not> Headers_has (headerTabs ?h2 (nextRef h)) ''content-type'' \<and> truthyMime (mimeType B')
      then ?h2\<lparr> headerTabs := (headerTabs ?h2)
              (nextRef h := replaceValue (headerTabs ?h2 (nextRef h)) ''content-type''
                             (case mimeType B' of Some t \<Rightarrow> t | None \<Rightarrow> [])) \<rparr>
      else ?h2)"
  define c where "c = \<lparr> url = url r, credentials = credentials r, rmethod = rmethod r,
      signal = signal r, headers = HeadersObj (nextRef h), rbody = nextRef k0 \<rparr>"
  have as: "Request_assemble ?h1 (url r) (Some (credentials r)) (Some (rmethod r)) (signal r)
              (Some (HeadersObj (nextRef h))) None ?opts = (h3, Inr c)"
    using bn bi st mm
    by (simp add: Request_assemble_def noOptions_def Let_def h3_def c_def)
  have cl: "Request_clone h r = (h3, Inr c)"
    using nu hd as by (simp add: Request_clone_def Request_new_def)
  have t2: "headerTabs ?h2 = (headerTabs h)(nextRef h := headerTabs h a)" using fr by simp
  have ha: "headerTabs h3 a = headerTabs h a" using t2 al by (simp add: h3_def)
  have hn: "Headers_has (headerTabs h a) ''content-type'' \<or> \<not> truthyMime (mimeType ?B)
          \<longrightarrow> headerTabs h3 (nextRef h) = headerTabs h a"
    using t2 mt by (simp add: h3_def)
  have bo: "bodies h3 = (bodies h)(nextRef k0 := B')" using fr by (simp add: h3_def)
  have "buffers h3 = buffers k0" by (simp add: h3_def)
  then have sc: "sameContent h3 B' h ?B" using sB sameContent_heap[of h3 k0 B' h ?B] by simp
  show ?thesis
    using cl a al ha hn ne bo bi(2) sc
    by (intro exI[of _ h3] exI[of _ c] exI[of _ a] exI[of _ B']) (simp add: c_def)
qed

lemma clone_independent:
  assumes "Request_clone h r = (h', Inr c)" "rbody c \<noteq> rbody r"
    "\<not> bodyUsed (bodies h' (rbody r))" "\<not> bodyUsed (bodies h' (rbody c))"
  shows "\<not> bodyUsed (bodies (fst (Request_call P h' c k)) (rbody r))"
    and "\<not> bodyUsed (bodies (fst (Request_call P h' r k)) (rbody c))"
    and "bodyUsed (bodies (fst (Request_call P h' c k)) (rbody c))"
    and "bodyUsed (bodies (fst (Request_call P h' r k)) (rbody r))"
  using assms call_bodies[of P h' "rbody c" k] call_bodies[of P h' "rbody r" k]
  by (simp_all add: Request_call_def)

lemma clone_gives_independent_request:
  "wellFormed h r \<Longrightarrow> \<not> bodyUsed (bodies h (rbody r)) \<Longrightarrow>
   \<exists>h' c. Request_clone h r = (h', Inr c) \<and> headers c \<noteq> headers r
     \<and> \<not> bodyUsed (bodies h' (rbody r)) \<and> \<not> bodyUsed (bodies h' (rbody c))
     \<and> (\<forall>P k. \<not> bodyUsed (bodies (fst (Request_call P h' c k)) (rbody r))
              \<and> \<not> bodyUsed (bodies (fst (Request_call P h' r k)) (rbody c)))"
proof -
  assume wf: "wellFormed h r" and nu: "\<not> bodyUsed (bodies h (rbody r))"
  from clone_of_fresh[OF wf nu] obtain h' c a B' where
    cl: "Request_clone h r = (h', Inr c)" and hh: "headers r = HeadersObj a"
      "headers c = HeadersObj (nextRef h)" "nextRef h \<noteq> a"
    and ne: "rbody c \<noteq> rbody r" and bo: "bodies h' = (bodies h)(rbody c := B')" "\<not> bodyUsed B'"
    by blast
  have u: "\<not> bodyUsed (bodies h' (rbody r))" "\<not> bodyUsed (bodies h' (rbody c))"
    using bo ne nu by simp_all
  show ?thesis
    using cl hh u clone_independent(1,2)[OF cl ne u]
    by (intro exI[of _ h'] exI[of _ c]) simp
qed

text \<open>
  C4. \<open>clone()\<close> is to give an independent message with an unused body, and to throw
  "Already read" on a used one. \<open>Request.clone\<close> does (the lemmas above).
  \<open>StreamBlobResponse.clone\<close> evaluates \<open>this._arrayBufferResponse.slice(0)\<close>,
  and a \<open>Response\<close> has no \<open>slice\<close>: whatever the response, used or not, the
  call throws a \<open>TypeError\<close> and gives no clone.
\<close>

theorem streamBlobResponse_clone_throws:
  "snd (StreamBlobResponse_clone P h x) =
     Inl (case arrayBufferResponse x of
            None \<Rightarrow> UndefinedMember ''slice''
          | Some ar \<Rightarrow> NotAFunction ''slice'')
   \<and> (case newBuffer emptyHeap [0x68, 0x69] of
        (h0, buf) \<Rightarrow>
          (case newStream h0 of
             (h1, s) \<Rightarrow>
               (case StreamBlobResponse_new examplePlatform h1
                       (Blob [BytesPart [0x68, 0x69]] ''text/plain'') s s
                       \<lparr> i_status = Some 200, i_statusText = None, i_headers = None,
                         i_url = Some ''/hello'' \<rparr> (Some buf) of
                  Inr (h2, y) \<Rightarrow>
                    StreamBlobResponse_bodyUsed h2 y = Inr False
                    \<and> snd (StreamBlobResponse_clone examplePlatform h2 y)
                        = Inl (NotAFunction ''slice'')
                | Inl e \<Rightarrow> False)))"
  by (simp add: StreamBlobResponse_clone_def Response_slice_def Headers_new_def newStream_def
      newHeadersObject_def StreamBlobResponse_new_def Response_new_def Body_new_def
      newBodyObject_def newBuffer_def emptyHeap_def emptyBody_def Headers_has_def truthyMime_def
      lowerChar_def enqueue_def StreamBlobResponse_bodyUsed_def Response_bodyUsed_def Let_def
      split: option.splits)


section \<open>Properties of Fetch\<close>

lemmas fetchDefs = Fetch_new_def didReceiveNetworkResponse_def didReceiveNetworkData_def
  didReceiveNetworkIncrementalData_def didCompleteNetworkResponse_def abort_def
  streamCancel_def clearNetworkSubscriptions_def enqueueSingleChunk_def Response_new_def
  newStream_def enqueue_def closeStream_def errorStream_def resolve_def reject_def

lemma encode_append:
  "\<not> (xs \<noteq> [] \<and> ys \<noteq> [] \<and> isHigh (last xs) \<and> isLow (hd ys)) \<Longrightarrow>
   encode (xs @ ys) = encode xs @ encode ys"
proof (induction xs rule: encode.induct)
  case 1
  then show ?case by simp
next
  case (2 u)
  then show ?case by (cases ys) auto
next
  case (3 u v s)
  then show ?case by (cases "s = []") auto
qed

lemma concat_suffixChunks:
  "cleanChain t0 ts \<Longrightarrow> encode t0 @ concat (suffixChunks t0 ts) = encode (last (t0 # ts))"
proof (induction ts arbitrary: t0)
  case Nil
  then show ?case by simp
next
  case (Cons t ts)
  then obtain zs where t: "t = t0 @ zs" by (auto simp: prefix_def)
  have "\<not> (t0 \<noteq> [] \<and> zs \<noteq> [] \<and> isHigh (last t0) \<and> isLow (hd zs))"
    using Cons.prems t by (auto simp: splitsPair_def nth_append hd_conv_nth)
  then have e: "encode t = encode t0 @ encode zs" using encode_append t by blast
  have "encode t @ concat (suffixChunks t ts) = encode (last (t # ts))"
    using Cons by simp
  then show ?case using e t by simp
qed

lemma incremental_step:
  assumes "subscribed f" "requestId f = Some rid" "streamController f = Some s"
    "state (streams h s) = Readable"
  shows "deliver P h f (DidReceiveNetworkIncrementalData rid t p n) =
     (h\<lparr> streams := (streams h)(s := (streams h s)\<lparr> chunks := chunks (streams h s)
            @ [encode (drop (responseTextOffset f) t)] \<rparr>) \<rparr>,
      f\<lparr> responseTextOffset := length t \<rparr>, None)"
  using assms by (simp add: didReceiveNetworkIncrementalData_def enqueue_def Let_def)

lemma run_incremental:
  assumes "subscribed f" "requestId f = Some rid" "streamController f = Some s"
    "state (streams h s) = Readable" "responseTextOffset f = length t0"
  shows "\<exists>h' f'. run P h f (incrementalEvents rid xs) = (h', f')
      \<and> chunks (streams h' s) = chunks (streams h s) @ suffixChunks t0 (map fst xs)
      \<and> state (streams h' s) = Readable
      \<and> responseTextOffset f' = length (last (t0 # map fst xs))
      \<and> deferredPromise f' = deferredPromise f"
  using assms
proof (induction xs arbitrary: h f t0)
  case Nil
  then show ?case by (simp add: incrementalEvents_def)
next
  case (Cons x xs)
  obtain t p n where x: "x = (t, p, n)" by (cases x)
  let ?h1 = "h\<lparr> streams := (streams h)(s := (streams h s)\<lparr> chunks := chunks (streams h s)
            @ [encode (drop (responseTextOffset f) t)] \<rparr>) \<rparr>"
  let ?f1 = "f\<lparr> responseTextOffset := length t \<rparr>"
  have st: "deliver P h f (DidReceiveNetworkIncrementalData rid t p n) = (?h1, ?f1, None)"
    using incremental_step[OF Cons.prems(1-4)] .
  have "\<exists>h' f'. run P ?h1 ?f1 (incrementalEvents rid xs) = (h', f')
      \<and> chunks (streams h' s) = chunks (streams ?h1 s) @ suffixChunks t (map fst xs)
      \<and> state (streams h' s) = Readable
      \<and> responseTextOffset f' = length (last (t # map fst xs))
      \<and> deferredPromise f' = deferredPromise ?f1"
    using Cons.prems by (intro Cons.IH) simp_all
  then show ?case using st x Cons.prems(5) by (auto simp: incrementalEvents_def)
qed

text \<open>
  C6, as amended. With the listeners registered, the request identified and the stream
  open, each incremental data event enqueues exactly the UTF-8 encoding of what its text
  has past the running offset, and sets the offset to the length of its text. When each
  text is a prefix of the next and none ends inside a surrogate pair that the next one
  completes, the chunks together are the UTF-8 encoding of the last text (after that of
  the text before the first, which is empty for a new exchange).
\<close>

theorem incremental_chunks:
  "subscribed f \<and> requestId f = Some rid \<and> streamController f = Some s
     \<and> state (streams h s) = Readable \<and> responseTextOffset f = length t0 \<longrightarrow>
   (case run P h f (incrementalEvents rid xs) of
      (h', f') \<Rightarrow>
        chunks (streams h' s) = chunks (streams h s) @ suffixChunks t0 (map fst xs)
        \<and> responseTextOffset f' = length (last (t0 # map fst xs))
        \<and> (cleanChain t0 (map fst xs) \<longrightarrow>
             encode t0 @ concat (suffixChunks t0 (map fst xs)) = encode (last (t0 # map fst xs))))"
proof
  assume a: "subscribed f \<and> requestId f = Some rid \<and> streamController f = Some s
     \<and> state (streams h s) = Readable \<and> responseTextOffset f = length t0"
  then obtain h' f' where "run P h f (incrementalEvents rid xs) = (h', f')"
      "chunks (streams h' s) = chunks (streams h s) @ suffixChunks t0 (map fst xs)"
      "responseTextOffset f' = length (last (t0 # map fst xs))"
    using run_incremental[of f rid s h t0 P xs] by blast
  then show "case run P h f (incrementalEvents rid xs) of
      (h', f') \<Rightarrow>
        chunks (streams h' s) = chunks (streams h s) @ suffixChunks t0 (map fst xs)
        \<and> responseTextOffset f' = length (last (t0 # map fst xs))
        \<and> (cleanChain t0 (map fst xs) \<longrightarrow>
             encode t0 @ concat (suffixChunks t0 (map fst xs)) = encode (last (t0 # map fst xs)))"
    using concat_suffixChunks[of t0 "map fst xs"] by simp
qed


theorem incremental_chunks_witness:
  "(case Fetch_new emptyHeap (UrlIn ''/stream'') noOptions of
      (h0, Inr f0) \<Rightarrow>
        (case run examplePlatform h0 f0
                [DidCreateRequest 1, DidReceiveNetworkResponse 1 200 [] ''/stream''] of
           (h1, f1) \<Rightarrow>
             (case streamController f1 of
                Some s \<Rightarrow>
                  subscribed f1 \<and> requestId f1 = Some 1 \<and> state (streams h1 s) = Readable
                  \<and> responseTextOffset f1 = length ([] :: jsstring)
                  \<and> cleanChain [] (map fst exampleTexts)
                  \<and> (case run examplePlatform h1 f1 (incrementalEvents 1 exampleTexts) of
                       (h2, f2) \<Rightarrow>
                         chunks (streams h2 s)
                           = [[0x68], [0xC3, 0xA9], [0xF0, 0x9F, 0x98, 0x80]]
                         \<and> concat (chunks (streams h2 s))
                           = encode [0x68, 0xE9, 0xD83D, 0xDE00])
              | None \<Rightarrow> False))
    | (h0, Inl e) \<Rightarrow> False)"
proof -
  obtain h0 f0 h1 f1 s where n: "Fetch_new emptyHeap (UrlIn ''/stream'') noOptions = (h0, Inr f0)"
    and r: "run examplePlatform h0 f0
                [DidCreateRequest 1, DidReceiveNetworkResponse 1 200 [] ''/stream''] = (h1, f1)"
    and c: "streamController f1 = Some s"
    and y: "subscribed f1 \<and> requestId f1 = Some 1 \<and> streamController f1 = Some s
              \<and> state (streams h1 s) = Readable
              \<and> responseTextOffset f1 = length ([] :: jsstring)"
    and e: "chunks (streams h1 s) = []"
    by (simp add: evalDefs fetchDefs)
  have cc: "cleanChain [] (map fst exampleTexts)"
    by (simp add: exampleTexts_def splitsPair_def isHigh_def isLow_def)
  have sc: "suffixChunks [] (map fst exampleTexts) = [[0x68], [0xC3, 0xA9], [0xF0, 0x9F, 0x98, 0x80]]"
    by (simp add: exampleTexts_def isHigh_def isLow_def utf8_def scalar_def)
  have la: "last ([] # map fst exampleTexts) = [0x68, 0xE9, 0xD83D, 0xDE00]"
    by (simp add: exampleTexts_def)
  obtain h2 f2 where r2: "run examplePlatform h1 f1 (incrementalEvents 1 exampleTexts) = (h2, f2)"
    by (cases "run examplePlatform h1 f1 (incrementalEvents 1 exampleTexts)")
  from incremental_chunks[where f = f1 and rid = 1 and s = s and h = h1 and ?t0.0 = "[]"
      and P = examplePlatform and xs = exampleTexts] y cc r2 e
  have "chunks (streams h2 s) = suffixChunks [] (map fst exampleTexts)
      \<and> concat (suffixChunks [] (map fst exampleTexts)) = encode (last ([] # map fst exampleTexts))"
    by simp
  then show ?thesis using n r c y cc r2 sc la by simp
qed


text \<open>
  A text that ends with the first half of a surrogate pair: each half is encoded alone,
  as U+FFFD, and the chunks are not the encoding of the whole text.
\<close>

theorem split_surrogate_pair_chunks:
  "(case Fetch_new emptyHeap (UrlIn ''/stream'') noOptions of
      (h0, Inr f0) \<Rightarrow>
        (case run examplePlatform h0 f0
                [DidCreateRequest 1, DidReceiveNetworkResponse 1 200 [] ''/stream'',
                 DidReceiveNetworkIncrementalData 1 [0xD83D] 2 4,
                 DidReceiveNetworkIncrementalData 1 [0xD83D, 0xDE00] 4 4] of
           (h1, f1) \<Rightarrow>
             (case streamController f1 of
                Some s \<Rightarrow>
                  chunks (streams h1 s) = [[0xEF, 0xBF, 0xBD], [0xEF, 0xBF, 0xBD]]
                  \<and> encode [0xD83D, 0xDE00] = [0xF0, 0x9F, 0x98, 0x80]
                  \<and> prefix [0xD83D] [0xD83D, 0xDE00 :: 16 word]
              | None \<Rightarrow> False))
    | (h0, Inl e) \<Rightarrow> False)"
  by (simp add: evalDefs fetchDefs isHigh_def isLow_def utf8_def scalar_def)



lemma Fetch_new_pending:
  "Fetch_new h resource opts = (h1, Inr f) \<Longrightarrow>
     deferredPromise f = Pending \<and> readableStreamController f = None \<and> subscribed f
     \<and> requestId f = None"
  by (auto simp add: Fetch_new_def split: prod.splits sum.splits hvalue.splits if_splits)










text \<open>
  \<open>__abort\<close> reads \<open>_readableStreamController\<close>, which nothing assigns: it
  throws before it rejects, and no exchange is ever rejected with \<open>AbortError\<close>.
\<close>

lemma deliver_no_abort_error:
  "readableStreamController f = None \<Longrightarrow> deferredPromise f \<noteq> Rejected AbortError \<Longrightarrow>
   deliver P h f ev = (h', f', x) \<Longrightarrow>
   readableStreamController f' = None \<and> deferredPromise f' \<noteq> Rejected AbortError"
  by (cases ev)
     (auto simp: didReceiveNetworkResponse_def didReceiveNetworkData_def
        didReceiveNetworkIncrementalData_def didCompleteNetworkResponse_def abort_def
        streamCancel_def clearNetworkSubscriptions_def resolve_def reject_def Let_def newStream_def
        split: if_splits option.splits sum.splits prod.splits list.splits promise.splits)

lemma run_no_abort_error:
  "readableStreamController f = None \<Longrightarrow> deferredPromise f \<noteq> Rejected AbortError \<Longrightarrow>
   deferredPromise (snd (run P h f es)) \<noteq> Rejected AbortError"
proof (induction es arbitrary: h f)
  case Nil
  then show ?case by simp
next
  case (Cons ev es)
  obtain h1 f1 x where d: "deliver P h f ev = (h1, f1, x)" by (cases "deliver P h f ev")
  note k = deliver_no_abort_error[OF Cons.prems d]
  show ?case using Cons.IH[of f1 h1] k d by simp
qed

lemma fetch_never_rejects_with_abort:
  "Fetch_new h resource opts = (h1, Inr f) \<Longrightarrow>
   deferredPromise (snd (run P h1 f es)) \<noteq> Rejected AbortError"
  using Fetch_new_pending[of h resource opts h1 f] run_no_abort_error[of f P h1 es] by simp

lemma abort_throws:
  "readableStreamController f = None \<Longrightarrow> abortListener f \<Longrightarrow>
   \<exists>f'. deliver P h f SignalAbort = (h, f', Some (UndefinedMember ''error''))
      \<and> deferredPromise f' = deferredPromise f"
  by (simp add: abort_def clearNetworkSubscriptions_def)

text \<open>
  C5. An abort in flight is to reject the pending outcome with \<open>AbortError\<close>, or to
  error the stream of a response already delivered. In the code the abort event aborts
  the native request and removes the listeners, then throws a \<open>TypeError\<close>: the
  outcome stays pending, and the stream of a delivered response stays readable.
\<close>

theorem abort_leaves_outcome_pending:
  "(case Fetch_new emptyHeap (UrlIn ''/slow'') (noOptions\<lparr> o_signal := Some 0 \<rparr>) of
      (h0, Inr f0) \<Rightarrow>
        (case run P h0 f0 [DidCreateRequest 7] of
           (h1, f1) \<Rightarrow>
             abortListener f1 \<and> subscribed f1 \<and> deferredPromise f1 = Pending
             \<and> (case deliver P h1 f1 SignalAbort of
                  (h2, f2, x) \<Rightarrow>
                    x = Some (UndefinedMember ''error'')
                    \<and> deferredPromise f2 = Pending
                    \<and> \<not> subscribed f2
                    \<and> native f2 = native f1 @ [AbortRequest (Some 7)])
             \<and> (case run P h1 f1 [DidReceiveNetworkResponse 7 200 [] ''/slow''] of
                  (h3, f3) \<Rightarrow>
                    (case (deferredPromise f3, streamController f3) of
                       (Fulfilled r, Some s) \<Rightarrow>
                         (case deliver P h3 f3 SignalAbort of
                            (h4, f4, x) \<Rightarrow>
                              x = Some (UndefinedMember ''error'')
                              \<and> state (streams h3 s) = Readable
                              \<and> state (streams h4 s) = Readable)
                     | _ \<Rightarrow> False)))
    | (h0, Inl e) \<Rightarrow> False)"
  by (simp add: evalDefs fetchDefs)


end
